theory Spec2Isabelle
  imports Complex_Main "HOL-Library.Word"
begin

section \<open>JavaScript values carried by a JSON-RPC request\<close>

text \<open>
  The snap receives \<^verbatim>\<open>request.params\<close> as a JSON value. A JavaScript object keeps its
  own properties in a fixed order, so an object is the association list of its
  properties in the order JavaScript enumerates them (of distinct keys, for an object that
  JSON can carry); a property that is absent reads as \<open>Undefined\<close>. JSON numbers are
  finite (no NaN, no infinity), so they are rationals here.
\<close>

datatype jsval =
    Undefined
  | Null
  | Bool bool
  | Num rat
  | Str string
  | Arr "jsval list"
  | Obj "(string \<times> jsval) list"

type_synonym byte = "8 word"

definition getProp :: "(string \<times> jsval) list \<Rightarrow> string \<Rightarrow> jsval" where
  "getProp es k = (case map_of es k of None \<Rightarrow> Undefined | Some v \<Rightarrow> v)"

text \<open>The decimal numeral of an array index, as \<^verbatim>\<open>Object.keys\<close> names it.\<close>

function decimal :: "nat \<Rightarrow> string" where
  "decimal n =
     (if n < 10 then [''0123456789'' ! n]
      else decimal (n div 10) @ [''0123456789'' ! (n mod 10)])"
  by pat_completeness auto
termination
  by (relation "measure id") auto

declare decimal.simps [simp del]

definition indexed :: "jsval list \<Rightarrow> (string \<times> jsval) list" where
  "indexed xs = map (\<lambda>e. (decimal (fst e), snd e)) (enumerate 0 xs)"

text \<open>
  \<^verbatim>\<open>typeof v === 'object' && v != null\<close>, the test superstruct applies before it reads
  the entries of a value: objects and arrays pass it.
\<close>

fun isObject :: "jsval \<Rightarrow> bool" where
  "isObject (Obj es) = True"
| "isObject (Arr xs) = True"
| "isObject v = False"

text \<open>
  The own enumerable properties of a value, in the order of \<^verbatim>\<open>Object.keys\<close>: an array has
  its elements under their indices, a string its characters.
\<close>

fun ownProps :: "jsval \<Rightarrow> (string \<times> jsval) list" where
  "ownProps (Obj es) = es"
| "ownProps (Arr xs) = indexed xs"
| "ownProps (Str s) = indexed (map (\<lambda>c. Str [c]) s)"
| "ownProps v = []"

text \<open>
  Reading \<^verbatim>\<open>v[k]\<close> of a value that is neither \<^verbatim>\<open>undefined\<close> nor \<^verbatim>\<open>null\<close>: an own property,
  the \<^verbatim>\<open>length\<close> of an array or a string, and otherwise \<^verbatim>\<open>undefined\<close>. The properties a
  value inherits from its prototype (\<^verbatim>\<open>toString\<close>, \<^verbatim>\<open>join\<close>, ...) are not read this way by
  the handler, and no schema key of types.ts names one.
\<close>

fun readProp :: "jsval \<Rightarrow> string \<Rightarrow> jsval" where
  "readProp (Arr xs) k =
     (if k = ''length'' then Num (of_nat (length xs)) else getProp (indexed xs) k)"
| "readProp (Str s) k =
     (if k = ''length'' then Num (of_nat (length s)) else getProp (ownProps (Str s)) k)"
| "readProp v k = getProp (ownProps v) k"

text \<open>Writing a property: an existing key keeps its place, a new key goes last.\<close>

fun setProp :: "(string \<times> jsval) list \<Rightarrow> string \<Rightarrow> jsval \<Rightarrow> (string \<times> jsval) list" where
  "setProp [] k v = [(k, v)]"
| "setProp ((k', v') # es) k v = (if k' = k then (k, v) # es else (k', v') # setProp es k v)"

text \<open>Object spread \<^verbatim>\<open>{ ...src }\<close> inside a literal that so far holds \<open>es\<close>.\<close>

definition spread :: "(string \<times> jsval) list \<Rightarrow> (string \<times> jsval) list \<Rightarrow> (string \<times> jsval) list" where
  "spread es src = fold (\<lambda>e acc. setProp acc (fst e) (snd e)) src es"

section \<open>The parameter structs (types.ts) and superstruct's validation\<close>

datatype superstruct =
    Number
  | Never
  | ObjectAny
  | Object "(string \<times> superstruct) list"
  | Type "(string \<times> superstruct) list"
  | Optional superstruct
  | Array superstruct

datatype pkey = Key string | Index nat

record failure =
  f_path :: "pkey list"
  f_type :: string
  f_value :: jsval

definition toFailure :: "pkey list \<Rightarrow> string \<Rightarrow> jsval \<Rightarrow> failure" where
  "toFailure p ty v = \<lparr>f_path = p, f_type = ty, f_value = v\<rparr>"

text \<open>
  The structs of superstruct that types.ts uses: \<^verbatim>\<open>number()\<close>, \<^verbatim>\<open>never()\<close>, \<^verbatim>\<open>object()\<close>
  without and with a schema, \<^verbatim>\<open>type(schema)\<close>, \<^verbatim>\<open>optional(s)\<close> and \<^verbatim>\<open>array(s)\<close>; \<^verbatim>\<open>number()\<close>
  accepts every number, \<^verbatim>\<open>optional\<close> accepts \<^verbatim>\<open>undefined\<close> besides what its argument accepts,
  and \<^verbatim>\<open>object\<close> and \<^verbatim>\<open>type\<close> take every value that passes \<open>isObject\<close>, arrays included.

  \<open>run\<close> gives the failures of a value against a struct, in the order superstruct
  reports them: the struct's own check first, then its entries (the schema's keys in
  schema order, each read from the value, then, for a strict \<open>Object\<close>, every own key of
  the value that the schema does not name, against \<open>Never\<close>). A failure records the path,
  the expected type and the value received.
\<close>

fun run :: "superstruct \<Rightarrow> pkey list \<Rightarrow> jsval \<Rightarrow> failure list" where
  "run Number p v = (case v of Num n \<Rightarrow> [] | _ \<Rightarrow> [toFailure p ''number'' v])"
| "run Never p v = [toFailure p ''never'' v]"
| "run ObjectAny p v = (if isObject v then [] else [toFailure p ''object'' v])"
| "run (Object schema) p v =
     (if isObject v then
        concat (map (\<lambda>e. run (snd e) (p @ [Key (fst e)]) (readProp v (fst e))) schema) @
        map (\<lambda>e. toFailure (p @ [Key (fst e)]) ''never'' (snd e))
          (filter (\<lambda>e. fst e \<notin> set (map fst schema)) (ownProps v))
      else [toFailure p ''object'' v])"
| "run (Type schema) p v =
     (if isObject v then
        concat (map (\<lambda>e. run (snd e) (p @ [Key (fst e)]) (readProp v (fst e))) schema)
      else [toFailure p ''type'' v])"
| "run (Optional s) p v = (if v = Undefined then [] else run s p v)"
| "run (Array s) p v =
     (case v of
        Arr xs \<Rightarrow> concat (map (\<lambda>e. run s (p @ [Index (fst e)]) (snd e)) (enumerate 0 xs))
      | _ \<Rightarrow> [toFailure p ''array'' v])"

text \<open>\<^verbatim>\<open>validate(value, struct)\<close>: the first failure, or the value itself.\<close>

definition superstructValidate :: "jsval \<Rightarrow> superstruct \<Rightarrow> failure option \<times> jsval" where
  "superstructValidate v s =
     (case run s [] v of [] \<Rightarrow> (None, v) | f # fs \<Rightarrow> (Some f, Undefined))"

definition GetAddressStruct :: superstruct where
  "GetAddressStruct = Type [(''keyId'', Number)]"

definition TransactionStruct :: superstruct where
  "TransactionStruct = Object
     [(''call'', ObjectAny),
      (''chain_id'', Number),
      (''max_priority_fee_bips'', Number),
      (''max_fee'', Number),
      (''gas_limit'', Optional (Array Number)),
      (''nonce'', Number)]"

definition SignTransactionStruct :: superstruct where
  "SignTransactionStruct = Object
     [(''transaction'', TransactionStruct),
      (''keyId'', Number)]"

section \<open>Errors, collaborators and the trace of their invocations\<close>

text \<open>
  What the handler throws: \<^verbatim>\<open>rpcErrors.invalidParams(validationErr.toString())\<close>, whose
  message renders the struct failure; \<^verbatim>\<open>providerErrors.userRejectedRequest()\<close>;
  \<^verbatim>\<open>new Error(message)\<close>; the runtime's TypeError on reading a property of \<^verbatim>\<open>undefined\<close> or
  \<^verbatim>\<open>null\<close>; the AssertionError of \<^verbatim>\<open>assert\<close>; and whatever a collaborator throws.
\<close>

datatype error =
    InvalidParams failure
  | UserRejectedRequest
  | JsError string
  | TypeError
  | AssertionError
  | Thrown string

record keypair_params =
  path :: "string list"
  compressed :: bool
  curve :: string

record slip10_node =
  node_publicKey :: string
  node_privateKey :: "string option"

datatype component = Heading string | Text string | Copyable string

text \<open>
  Everything the handler calls but does not define: the snap host (custody gateway and
  dialog), the key-tree and ed25519 libraries, the codec (wasm) and the JavaScript
  runtime's string conversions. Each call answers with a value or throws.
\<close>

record env =
  snap_getBip32PublicKey :: "keypair_params \<Rightarrow> error + string"
  snap_getBip32Entropy :: "keypair_params \<Rightarrow> error + jsval"
  snap_dialog :: "component list \<Rightarrow> error + bool"
  SLIP10Node_fromJSON :: "jsval \<Rightarrow> error + slip10_node"
  wasm_bechEncodePublicKey :: "string \<Rightarrow> error + string"
  wasm_serializeCall :: "jsval \<Rightarrow> error + byte list"
  wasm_serializeUnsignedTransaction :: "jsval \<Rightarrow> error + byte list"
  wasm_serializeTransaction :: "jsval \<Rightarrow> error + byte list"
  ed25519_sign :: "byte list \<Rightarrow> string \<Rightarrow> error + byte list"
  JSON_stringify :: "jsval \<Rightarrow> string"
  String_of :: "jsval \<Rightarrow> string"

datatype event =
    Validate superstruct jsval
  | GetBip32PublicKey keypair_params
  | GetBip32Entropy keypair_params
  | FromJSON jsval
  | BechEncodePublicKey string
  | Dialog "component list"
  | SerializeCall jsval
  | SerializeUnsignedTransaction jsval
  | Sign "byte list" string
  | SerializeTransaction jsval
  | Dealloc

text \<open>
  A computation of the handler yields its outcome (a thrown error on the left) together
  with the calls it made to its collaborators, oldest first.
\<close>

type_synonym 'a io = "(error + 'a) \<times> event list"

definition returnM :: "'a \<Rightarrow> 'a io" where
  "returnM x = (Inr x, [])"

definition throwM :: "error \<Rightarrow> 'a io" where
  "throwM e = (Inl e, [])"

text \<open>\<open>after evs m\<close>: the computation \<open>m\<close>, run after the calls \<open>evs\<close> were made.\<close>

definition after :: "event list \<Rightarrow> 'a io \<Rightarrow> 'a io" where
  "after evs m = (fst m, evs @ snd m)"

definition bindM :: "'a io \<Rightarrow> ('a \<Rightarrow> 'b io) \<Rightarrow> 'b io" where
  "bindM m f = (case fst m of Inl e \<Rightarrow> (Inl e, snd m) | Inr x \<Rightarrow> after (snd m) (f x))"

text \<open>\<^verbatim>\<open>try { m } catch (er) { h(er) }\<close>\<close>

definition catchM :: "'a io \<Rightarrow> (error \<Rightarrow> 'a io) \<Rightarrow> 'a io" where
  "catchM m h = (case fst m of Inl e \<Rightarrow> after (snd m) (h e) | Inr x \<Rightarrow> (Inr x, snd m))"

text \<open>A call to a collaborator: the call is recorded, its answer is the outcome.\<close>

definition call :: "event \<Rightarrow> error + 'a \<Rightarrow> 'a io" where
  "call ev r = (r, [ev])"

text \<open>A step inside the handler that may throw but calls no collaborator.\<close>

definition liftE :: "error + 'a \<Rightarrow> 'a io" where
  "liftE r = (r, [])"

definition bindE :: "error + 'a \<Rightarrow> ('a \<Rightarrow> error + 'b) \<Rightarrow> error + 'b" where
  "bindE r f = (case r of Inl e \<Rightarrow> Inl e | Inr x \<Rightarrow> f x)"

text \<open>
  Modelled from the spec: \<^verbatim>\<open>wasm.dealloc()\<close> of the codec wrapper (wasm.ts), the release
  of the codec's working resource. It has no failure mode and no result.
\<close>

definition wasm_dealloc :: "unit io" where
  "wasm_dealloc = call Dealloc (Inr ())"

section \<open>Helpers of the handler\<close>

definition apostrophe :: char where
  "apostrophe = CHR 0x27"

text \<open>Reading \<^verbatim>\<open>v.k\<close> (and destructuring \<^verbatim>\<open>{ k } = v\<close>): a TypeError on undefined and null.\<close>

definition member :: "jsval \<Rightarrow> string \<Rightarrow> error + jsval" where
  "member v k =
     (case v of
        Undefined \<Rightarrow> Inl TypeError
      | Null \<Rightarrow> Inl TypeError
      | _ \<Rightarrow> Inr (readProp v k))"

text \<open>The method call \<^verbatim>\<open>v.toString()\<close>.\<close>

definition toString :: "env \<Rightarrow> jsval \<Rightarrow> error + string" where
  "toString env v =
     (case v of
        Undefined \<Rightarrow> Inl TypeError
      | Null \<Rightarrow> Inl TypeError
      | _ \<Rightarrow> Inr (String_of env v))"

fun truthy :: "jsval \<Rightarrow> bool" where
  "truthy Undefined = False"
| "truthy Null = False"
| "truthy (Bool b) = b"
| "truthy (Num n) = (n \<noteq> 0)"
| "truthy (Str s) = (s \<noteq> [])"
| "truthy (Arr xs) = True"
| "truthy (Obj es) = True"

fun intercalate :: "string \<Rightarrow> string list \<Rightarrow> string" where
  "intercalate sep [] = []"
| "intercalate sep [x] = x"
| "intercalate sep (x # y # ys) = x @ sep @ intercalate sep (y # ys)"

text \<open>\<^verbatim>\<open>v.join(sep)\<close>: only an array has the method; null and undefined elements are empty.\<close>

definition join :: "env \<Rightarrow> jsval \<Rightarrow> string \<Rightarrow> error + string" where
  "join env v sep =
     (case v of
        Arr xs \<Rightarrow>
          Inr (intercalate sep
            (map (\<lambda>x. if x = Undefined \<or> x = Null then [] else String_of env x) xs))
      | _ \<Rightarrow> Inl TypeError)"

definition remove0x :: "string \<Rightarrow> string" where
  "remove0x hexadecimal =
     (if take 2 hexadecimal = ''0x'' \<or> take 2 hexadecimal = ''0X''
      then drop 2 hexadecimal else hexadecimal)"

definition hexDigit :: "nat \<Rightarrow> char" where
  "hexDigit n = ''0123456789abcdef'' ! (n mod 16)"

definition bytesToHex :: "byte list \<Rightarrow> string" where
  "bytesToHex bs =
     ''0x'' @ concat (map (\<lambda>b. [hexDigit (unat b div 16), hexDigit (unat b mod 16)]) bs)"

text \<open>\<^verbatim>\<open>Array.from(bytes)\<close> of a byte array: the array of its numbers.\<close>

definition Array_from :: "byte list \<Rightarrow> jsval" where
  "Array_from bs = Arr (map (\<lambda>b. Num (of_nat (unat b))) bs)"

definition getKeypairParams :: "env \<Rightarrow> jsval \<Rightarrow> keypair_params" where
  "getKeypairParams env keyId =
     \<lparr>path = [''m'', ''44'' @ [apostrophe], ''1551'' @ [apostrophe],
              String_of env keyId @ [apostrophe]],
      compressed = True,
      curve = ''ed25519''\<rparr>"

definition cleanPublicKeyResponse :: "string \<Rightarrow> string" where
  "cleanPublicKeyResponse metamaskPublicKeyResponse =
     drop 2 (remove0x metamaskPublicKeyResponse)"

text \<open>
  \<^verbatim>\<open>const { [key]: omitted, ...rest } = obj\<close>: the other own enumerable properties, in
  their order; destructuring \<^verbatim>\<open>undefined\<close> or \<^verbatim>\<open>null\<close> throws.
\<close>

definition omitKey :: "string \<Rightarrow> jsval \<Rightarrow> error + (string \<times> jsval) list" where
  "omitKey key obj =
     (case obj of
        Undefined \<Rightarrow> Inl TypeError
      | Null \<Rightarrow> Inl TypeError
      | _ \<Rightarrow> Inr (filter (\<lambda>e. fst e \<noteq> key) (ownProps obj)))"

section \<open>The request handler (onRpcRequest)\<close>

text \<open>
  A request carries \<^verbatim>\<open>request.method\<close> (\<open>rpc_method\<close> here) and \<^verbatim>\<open>request.params\<close>
  (\<open>Undefined\<close> when absent). The handler's logging (\<^verbatim>\<open>console.trace\<close>, \<^verbatim>\<open>console.log\<close>,
  \<^verbatim>\<open>console.error\<close>) changes neither its result nor its calls and is left out. The codec
  wrapper is created once, when the module is loaded, not by a request.
\<close>

record request =
  rpc_method :: string
  params :: jsval

text \<open>
  The panel shown by the confirmation dialog, built field by field from the transaction
  and the sender address; its arguments are evaluated in the order of the source.
\<close>

definition confirmationContent ::
  "env \<Rightarrow> string \<Rightarrow> jsval \<Rightarrow> string \<Rightarrow> error + component list" where
  "confirmationContent env origin transaction address =
     bindE (member transaction ''call'') (\<lambda>call_msg.
     bindE (member transaction ''nonce'') (\<lambda>nonce.
     bindE (toString env nonce) (\<lambda>nonce_text.
     bindE (member transaction ''chain_id'') (\<lambda>chain_id.
     bindE (toString env chain_id) (\<lambda>chain_id_text.
     bindE (member transaction ''max_priority_fee_bips'') (\<lambda>max_priority_fee_bips.
     bindE (toString env max_priority_fee_bips) (\<lambda>max_priority_fee_bips_text.
     bindE (member transaction ''max_fee'') (\<lambda>max_fee.
     bindE (toString env max_fee) (\<lambda>max_fee_text.
     bindE (member transaction ''gas_limit'') (\<lambda>gas_limit.
     bindE (if truthy gas_limit then join env gas_limit '', '' else Inr ''Not Set'')
       (\<lambda>gas_limit_text.
     Inr [Heading ''Signature request'',
          Text ''The application at:'',
          Copyable origin,
          Text ''is requesting a signature for the call message:'',
          Copyable (JSON_stringify env call_msg),
          Text ''from address:'',
          Copyable address,
          Text ''with nonce:'',
          Copyable nonce_text,
          Text ''with chainId:'',
          Copyable chain_id_text,
          Text ''with maxPriorityFeeBips:'',
          Copyable max_priority_fee_bips_text,
          Text ''with maxFee:'',
          Copyable max_fee_text,
          Text ''with gasLimit:'',
          Copyable gas_limit_text])))))))))))"

text \<open>The \<^verbatim>\<open>getAddress\<close> case: the body of its \<^verbatim>\<open>try\<close>, then the whole case.\<close>

definition getAddress_try :: "env \<Rightarrow> keypair_params \<Rightarrow> string io" where
  "getAddress_try env keypairParams =
     bindM (call (GetBip32PublicKey keypairParams) (snap_getBip32PublicKey env keypairParams))
       (\<lambda>publicKeyResponse.
     let publicKey = cleanPublicKeyResponse publicKeyResponse in
     bindM (call (BechEncodePublicKey publicKey) (wasm_bechEncodePublicKey env publicKey))
       (\<lambda>address.
     bindM wasm_dealloc (\<lambda>_.
     returnM address)))"

definition getAddress :: "env \<Rightarrow> request \<Rightarrow> string io" where
  "getAddress env req =
     bindM (call (Validate GetAddressStruct (params req))
              (Inr (superstructValidate (params req) GetAddressStruct)))
       (\<lambda>(validationErr, ps).
     case validationErr of
       Some f \<Rightarrow> throwM (InvalidParams f)
     | None \<Rightarrow>
         bindM (liftE (member ps ''keyId'')) (\<lambda>keyId.
         let keypairParams = getKeypairParams env keyId in
         catchM (getAddress_try env keypairParams)
           (\<lambda>er. bindM wasm_dealloc (\<lambda>_. throwM er))))"

text \<open>
  The two object literals of the signing path:
  \<^verbatim>\<open>{ ...omitKey("call", transaction), runtime_msg }\<close> and
  \<^verbatim>\<open>{ "signature": { "msg_sig": sig }, "pub_key": publicKey, ...unsignedTransaction }\<close>.
\<close>

definition unsignedTransaction ::
  "(string \<times> jsval) list \<Rightarrow> jsval \<Rightarrow> (string \<times> jsval) list" where
  "unsignedTransaction rest runtime_msg = setProp (spread [] rest) ''runtime_msg'' runtime_msg"

definition signedTransaction ::
  "jsval \<Rightarrow> string \<Rightarrow> (string \<times> jsval) list \<Rightarrow> (string \<times> jsval) list" where
  "signedTransaction sig publicKey unsignedTx =
     spread [(''signature'', Obj [(''msg_sig'', sig)]), (''pub_key'', Str publicKey)] unsignedTx"

text \<open>
  The \<^verbatim>\<open>signTransaction\<close> case. \<open>signTransaction_approved\<close> is the part of the \<^verbatim>\<open>try\<close>
  after the approval check (encoding, signing, assembly); \<open>signTransaction_try\<close> is the
  \<^verbatim>\<open>try\<close> from its start.
\<close>

definition signTransaction_approved ::
  "env \<Rightarrow> jsval \<Rightarrow> string \<Rightarrow> string \<Rightarrow> string io" where
  "signTransaction_approved env transaction nodePrivateKey publicKey =
     bindM (liftE (member transaction ''call'')) (\<lambda>call_msg.
     bindM (call (SerializeCall call_msg) (wasm_serializeCall env call_msg)) (\<lambda>serializedCall.
     let runtime_msg = Array_from serializedCall in
     bindM (liftE (omitKey ''call'' transaction)) (\<lambda>rest.
     let unsignedTx = unsignedTransaction rest runtime_msg in
     bindM (call (SerializeUnsignedTransaction (Obj unsignedTx))
              (wasm_serializeUnsignedTransaction env (Obj unsignedTx)))
       (\<lambda>serializedUnsignedTransaction.
     let privateKey = remove0x nodePrivateKey in
     bindM (call (Sign serializedUnsignedTransaction privateKey)
              (ed25519_sign env serializedUnsignedTransaction privateKey))
       (\<lambda>signature_bytes.
     let sig = Array_from signature_bytes;
         signedTx = signedTransaction sig publicKey unsignedTx in
     bindM (call (SerializeTransaction (Obj signedTx))
              (wasm_serializeTransaction env (Obj signedTx)))
       (\<lambda>tx.
     let txHex = bytesToHex tx in
     bindM wasm_dealloc (\<lambda>u.
     returnM txHex)))))))"

definition signTransaction_try ::
  "env \<Rightarrow> string \<Rightarrow> jsval \<Rightarrow> keypair_params \<Rightarrow> string io" where
  "signTransaction_try env origin transaction keypairParams =
     bindM (call (GetBip32Entropy keypairParams) (snap_getBip32Entropy env keypairParams))
       (\<lambda>entropy.
     bindM (call (FromJSON entropy) (SLIP10Node_fromJSON env entropy)) (\<lambda>node.
     case node_privateKey node of
       None \<Rightarrow> throwM AssertionError
     | Some nodePrivateKey \<Rightarrow>
         if nodePrivateKey = [] then throwM AssertionError
         else
           let publicKey = cleanPublicKeyResponse (node_publicKey node) in
           bindM (call (BechEncodePublicKey publicKey) (wasm_bechEncodePublicKey env publicKey))
             (\<lambda>address.
           bindM (liftE (confirmationContent env origin transaction address)) (\<lambda>content.
           bindM (call (Dialog content) (snap_dialog env content)) (\<lambda>approved.
           if \<not> approved then throwM UserRejectedRequest
           else signTransaction_approved env transaction nodePrivateKey publicKey)))))"

definition signTransaction :: "env \<Rightarrow> string \<Rightarrow> request \<Rightarrow> string io" where
  "signTransaction env origin req =
     bindM (call (Validate SignTransactionStruct (params req))
              (Inr (superstructValidate (params req) SignTransactionStruct)))
       (\<lambda>(validationErr, ps).
     case validationErr of
       Some f \<Rightarrow> throwM (InvalidParams f)
     | None \<Rightarrow>
         bindM (liftE (member ps ''transaction'')) (\<lambda>transaction.
         bindM (liftE (member ps ''keyId'')) (\<lambda>keyId.
         let keypairParams = getKeypairParams env keyId in
         catchM (signTransaction_try env origin transaction keypairParams)
           (\<lambda>er. bindM wasm_dealloc (\<lambda>_. throwM er)))))"

definition onRpcRequest :: "env \<Rightarrow> string \<Rightarrow> request \<Rightarrow> string io" where
  "onRpcRequest env origin req =
     (if rpc_method req = ''getAddress'' then getAddress env req
      else if rpc_method req = ''signTransaction'' then signTransaction env origin req
      else throwM (JsError ''Method not found.''))"

section \<open>Classifying the recorded calls\<close>

text \<open>The Canonical Encoder: serializeCall, serializeUnsignedTransaction, serializeTransaction.\<close>

fun is_encoder_call :: "event \<Rightarrow> bool" where
  "is_encoder_call (SerializeCall c) = True"
| "is_encoder_call (SerializeUnsignedTransaction u) = True"
| "is_encoder_call (SerializeTransaction s) = True"
| "is_encoder_call ev = False"

fun is_sign_call :: "event \<Rightarrow> bool" where
  "is_sign_call (Sign m k) = True"
| "is_sign_call ev = False"

text \<open>The custody gateway: snap_getBip32PublicKey and snap_getBip32Entropy.\<close>

fun is_custody_call :: "event \<Rightarrow> bool" where
  "is_custody_call (GetBip32PublicKey kp) = True"
| "is_custody_call (GetBip32Entropy kp) = True"
| "is_custody_call ev = False"

text \<open>Every method of the codec wrapper, its release included.\<close>

fun is_codec_call :: "event \<Rightarrow> bool" where
  "is_codec_call (BechEncodePublicKey k) = True"
| "is_codec_call (SerializeCall c) = True"
| "is_codec_call (SerializeUnsignedTransaction u) = True"
| "is_codec_call (SerializeTransaction s) = True"
| "is_codec_call Dealloc = True"
| "is_codec_call ev = False"

fun is_bech_call :: "event \<Rightarrow> bool" where
  "is_bech_call (BechEncodePublicKey k) = True"
| "is_bech_call ev = False"

fun is_dialog_call :: "event \<Rightarrow> bool" where
  "is_dialog_call (Dialog c) = True"
| "is_dialog_call ev = False"

text \<open>The keys a validated transaction object may carry (the schema of TransactionStruct).\<close>

definition transaction_keys :: "string list" where
  "transaction_keys =
     [''call'', ''chain_id'', ''max_priority_fee_bips'', ''max_fee'', ''gas_limit'', ''nonce'']"

section \<open>A test double of the collaborators and the requests of the test suite\<close>

definition test_node :: slip10_node where
  "test_node = \<lparr>node_publicKey = ''0x00aabb'', node_privateKey = Some ''0x1234''\<rparr>"

definition test_env :: env where
  "test_env =
     \<lparr>snap_getBip32PublicKey = (\<lambda>kp. Inr ''0x00aabb''),
      snap_getBip32Entropy = (\<lambda>kp. Inr Null),
      snap_dialog = (\<lambda>c. Inr True),
      SLIP10Node_fromJSON = (\<lambda>j. Inr test_node),
      wasm_bechEncodePublicKey = (\<lambda>pk. Inr (''sov1'' @ pk)),
      wasm_serializeCall = (\<lambda>c. Inr [1, 2]),
      wasm_serializeUnsignedTransaction = (\<lambda>u. Inr [3]),
      wasm_serializeTransaction = (\<lambda>s. Inr [0xAB, 0x01]),
      ed25519_sign = (\<lambda>m k. Inr [7]),
      JSON_stringify = (\<lambda>j. ''{}''),
      String_of = (\<lambda>j. ''0'')\<rparr>"

text \<open>The same collaborators with an operator who declines.\<close>

definition rejecting_env :: env where
  "rejecting_env = test_env\<lparr>snap_dialog := (\<lambda>c. Inr False)\<rparr>"

definition test_transaction_entries :: "(string \<times> jsval) list" where
  "test_transaction_entries =
     [(''call'', Obj [(''bank'', Obj [])]),
      (''nonce'', Num 0),
      (''chain_id'', Num 4321),
      (''max_priority_fee_bips'', Num 0),
      (''max_fee'', Num 10000),
      (''gas_limit'', Arr [])]"

definition test_sign_params :: "(string \<times> jsval) list" where
  "test_sign_params = [(''keyId'', Num 0), (''transaction'', Obj test_transaction_entries)]"

definition sign_request :: request where
  "sign_request = \<lparr>rpc_method = ''signTransaction'', params = Obj test_sign_params\<rparr>"

definition address_request :: request where
  "address_request = \<lparr>rpc_method = ''getAddress'', params = Obj [(''keyId'', Num 0)]\<rparr>"

text \<open>\<^verbatim>\<open>keyId\<close> as a string instead of a number.\<close>

definition malformed_request :: request where
  "malformed_request = \<lparr>rpc_method = ''getAddress'', params = Obj [(''keyId'', Str ''0'')]\<rparr>"


definition foo_request :: request where
  "foo_request = \<lparr>rpc_method = ''foo'', params = Undefined\<rparr>"

text \<open>Signing parameters with one property more than the struct names.\<close>

definition extra_params :: "(string \<times> jsval) list" where
  "extra_params = test_sign_params @ [(''memo'', Str ''hello'')]"

text \<open>The panel the test transaction is confirmed with, as the test double renders it.\<close>

definition test_content :: "component list" where
  "test_content =
     [Heading ''Signature request'',
      Text ''The application at:'',
      Copyable ''site'',
      Text ''is requesting a signature for the call message:'',
      Copyable ''{}'',
      Text ''from address:'',
      Copyable ''sov1aabb'',
      Text ''with nonce:'',
      Copyable ''0'',
      Text ''with chainId:'',
      Copyable ''0'',
      Text ''with maxPriorityFeeBips:'',
      Copyable ''0'',
      Text ''with maxFee:'',
      Copyable ''0'',
      Text ''with gasLimit:'',
      Copyable []]"

text \<open>The unsigned transaction of the test request, with the test double's bytes for \<^verbatim>\<open>call\<close>.\<close>

definition test_unsigned :: jsval where
  "test_unsigned = Obj
     [(''nonce'', Num 0),
      (''chain_id'', Num 4321),
      (''max_priority_fee_bips'', Num 0),
      (''max_fee'', Num 10000),
      (''gas_limit'', Arr []),
      (''runtime_msg'', Arr [Num 1, Num 2])]"

text \<open>A signing request whose call message is an array, which \<^verbatim>\<open>object()\<close> accepts.\<close>

definition array_call_request :: request where
  "array_call_request =
     \<lparr>rpc_method = ''signTransaction'',
      params = Obj [(''keyId'', Num 0),
                    (''transaction'',
                     Obj [(''call'', Arr []), (''chain_id'', Num 4321),
                          (''max_priority_fee_bips'', Num 0), (''max_fee'', Num 10000),
                          (''nonce'', Num 0)])]\<rparr>"

section \<open>Laws of the computations\<close>

lemma after_simps [simp]:
  "fst (after evs m) = fst m"
  "snd (after evs m) = evs @ snd m"
  by (simp_all add: after_def)

lemma after_pair [simp]: "after evs (r, evs') = (r, evs @ evs')"
  by (simp add: after_def)

lemma after_Nil [simp]: "after [] m = m"
  by (simp add: after_def)

lemma after_after [simp]: "after evs (after evs' m) = after (evs @ evs') m"
  by (simp add: after_def)

lemma bindM_call:
  "bindM (call ev r) f = (case r of Inl e \<Rightarrow> (Inl e, [ev]) | Inr x \<Rightarrow> after [ev] (f x))"
  by (simp add: bindM_def call_def split: sum.splits)

lemma bindM_liftE:
  "bindM (liftE r) f = (case r of Inl e \<Rightarrow> (Inl e, []) | Inr x \<Rightarrow> f x)"
  by (simp add: bindM_def liftE_def split: sum.splits)

lemma bindM_dealloc: "bindM wasm_dealloc f = after [Dealloc] (f ())"
  by (simp add: wasm_dealloc_def bindM_call)

lemma catchM_dealloc:
  "catchM m (\<lambda>er. bindM wasm_dealloc (\<lambda>u. throwM er)) =
     (case fst m of Inl e \<Rightarrow> (Inl e, snd m @ [Dealloc]) | Inr x \<Rightarrow> (Inr x, snd m))"
  by (simp add: catchM_def bindM_dealloc throwM_def split: sum.splits)

lemmas io_simps = bindM_call bindM_liftE bindM_dealloc returnM_def throwM_def

section \<open>Objects: writing and spreading properties\<close>

lemma setProp_keys:
  "map fst (setProp es k v) = (if k \<in> set (map fst es) then map fst es else map fst es @ [k])"
  by (induction es) (auto simp: rev_image_eqI)

lemma setProp_fresh: "k \<notin> set (map fst es) \<Longrightarrow> setProp es k v = es @ [(k, v)]"
  by (induction es) auto

lemma getProp_setProp:
  "getProp (setProp es k v) k' = (if k' = k then v else getProp es k')"
  by (induction es) (auto simp: getProp_def)

lemma spread_Cons: "spread es (e # src) = spread (setProp es (fst e) (snd e)) src"
  by (simp add: spread_def)

lemma spread_Nil [simp]: "spread es [] = es"
  by (simp add: spread_def)

lemma spread_keys_set:
  "set (map fst (spread es src)) = set (map fst es) \<union> set (map fst src)"
proof (induction src arbitrary: es)
  case Nil
  show ?case by simp
next
  case (Cons e src)
  have "set (map fst (setProp es (fst e) (snd e))) = insert (fst e) (set (map fst es))"
    by (auto simp: setProp_keys)
  with Cons.IH [of "setProp es (fst e) (snd e)"] show ?case
    by (simp add: spread_Cons)
qed

lemma spread_distinct:
  "distinct (map fst es) \<Longrightarrow> distinct (map fst (spread es src))"
proof (induction src arbitrary: es)
  case Nil
  then show ?case by simp
next
  case (Cons e src)
  from Cons.prems have "distinct (map fst (setProp es (fst e) (snd e)))"
    by (simp add: setProp_keys)
  then show ?case
    by (simp add: spread_Cons Cons.IH)
qed

lemma spread_append:
  "distinct (map fst src) \<Longrightarrow> set (map fst src) \<inter> set (map fst es) = {} \<Longrightarrow>
     spread es src = es @ src"
proof (induction src arbitrary: es)
  case Nil
  show ?case by simp
next
  case (Cons e src)
  from Cons.prems have fresh: "fst e \<notin> set (map fst es)"
    by auto
  then have step: "setProp es (fst e) (snd e) = es @ [e]"
    by (simp add: setProp_fresh)
  from Cons.prems have "distinct (map fst src)"
    and "set (map fst src) \<inter> set (map fst (es @ [e])) = {}"
    by auto
  then have "spread (es @ [e]) src = (es @ [e]) @ src"
    by (rule Cons.IH)
  with step show ?case
    by (simp add: spread_Cons)
qed

lemma unsignedTransaction_keys:
  "set (map fst (unsignedTransaction rest rm)) = insert ''runtime_msg'' (set (map fst rest))"
  using spread_keys_set [of "[]" rest]
  by (simp add: unsignedTransaction_def setProp_keys insert_absorb)

lemma unsignedTransaction_distinct: "distinct (map fst (unsignedTransaction rest rm))"
proof -
  have "distinct (map fst (spread [] rest))"
    by (rule spread_distinct) simp
  then show ?thesis
    by (simp add: unsignedTransaction_def setProp_keys)
qed

lemma unsignedTransaction_append:
  assumes "distinct (map fst rest)" and "''runtime_msg'' \<notin> set (map fst rest)"
  shows "unsignedTransaction rest rm = rest @ [(''runtime_msg'', rm)]"
proof -
  have "spread [] rest = rest"
    using assms(1) by (simp add: spread_append)
  with assms(2) show ?thesis
    by (simp add: unsignedTransaction_def setProp_fresh)
qed

lemma signedTransaction_append:
  assumes "distinct (map fst utx)"
    and "''signature'' \<notin> set (map fst utx)" and "''pub_key'' \<notin> set (map fst utx)"
  shows "signedTransaction sig pk utx =
     (''signature'', Obj [(''msg_sig'', sig)]) # (''pub_key'', Str pk) # utx"
  using assms by (simp add: signedTransaction_def spread_append)

section \<open>What validation establishes\<close>

lemma decimal_digits: "set (decimal n) \<subseteq> set ''0123456789''"
proof (induction n rule: decimal.induct)
  case (1 n)
  have digit: "''0123456789'' ! (m mod 10) \<in> set ''0123456789''" for m :: nat
    by (rule nth_mem) simp
  show ?case
  proof (cases "n < 10")
    case True
    then have "''0123456789'' ! n \<in> set ''0123456789''"
      using digit [of n] by simp
    with True show ?thesis
      by (subst decimal.simps) simp
  next
    case False
    with "1.IH" have "set (decimal (n div 10)) \<subseteq> set ''0123456789''"
      by simp
    with False digit [of n] show ?thesis
      by (subst decimal.simps) simp
  qed
qed

lemma indexed_keys: "k \<in> set (map fst (indexed xs)) \<Longrightarrow> set k \<subseteq> set ''0123456789''"
  using decimal_digits by (auto simp: indexed_def)

lemma getProp_indexed_name:
  assumes "c \<in> set k" and "c \<notin> set ''0123456789''"
  shows "getProp (indexed xs) k = Undefined"
proof -
  from assms indexed_keys [of k xs] have "k \<notin> set (map fst (indexed xs))"
    by blast
  then have "map_of (indexed xs) k = None"
    by (simp add: map_of_eq_None_iff)
  then show ?thesis
    by (simp add: getProp_def)
qed

lemma getProp_indexed_names [simp]:
  "getProp (indexed xs) ''keyId'' = Undefined"
  "getProp (indexed xs) ''transaction'' = Undefined"
  "getProp (indexed xs) ''call'' = Undefined"
  using getProp_indexed_name [of "CHR ''k''" "''keyId''" xs]
    getProp_indexed_name [of "CHR ''t''" "''transaction''" xs]
    getProp_indexed_name [of "CHR ''c''" "''call''" xs]
  by simp_all

lemma readProp_Obj [simp]: "readProp (Obj es) k = getProp es k"
  by simp

lemma run_Number_Nil: "run Number p v = [] \<longleftrightarrow> (\<exists>n. v = Num n)"
  by (cases v) simp_all


lemma validate_None: "fst (superstructValidate v s) = None \<longleftrightarrow> run s [] v = []"
  by (simp add: superstructValidate_def split: list.splits)

lemma validate_ok: "run s [] v = [] \<Longrightarrow> superstructValidate v s = (None, v)"
  by (simp add: superstructValidate_def)

lemma validate_Some:
  "fst (superstructValidate v s) = Some f \<Longrightarrow> superstructValidate v s = (Some f, Undefined)"
  by (auto simp: superstructValidate_def split: list.splits)

lemma run_GetAddress_Nil:
  "run GetAddressStruct [] v = [] \<longleftrightarrow> (\<exists>es n. v = Obj es \<and> getProp es ''keyId'' = Num n)"
  by (cases v) (auto simp: GetAddressStruct_def split: jsval.splits)





lemma run_Transaction_Nil:
  "run TransactionStruct p v = [] \<Longrightarrow>
     \<exists>tes. v = Obj tes \<and> set (map fst tes) \<subseteq> set transaction_keys \<and>
       isObject (getProp tes ''call'')"
  apply (cases v; simp add: TransactionStruct_def transaction_keys_def split: if_splits)
  apply (auto simp: filter_empty_conv)
  done

lemma run_SignTransaction_Nil:
  "run SignTransactionStruct [] v = [] \<Longrightarrow>
     \<exists>es tes n. v = Obj es \<and> getProp es ''transaction'' = Obj tes
        \<and> set (map fst tes) \<subseteq> set transaction_keys
        \<and> getProp es ''keyId'' = Num n"
  apply (cases v; simp add: SignTransactionStruct_def run_Number_Nil del: run.simps(1) split: if_splits)
   apply (auto dest!: run_Transaction_Nil)
  done

section \<open>The calls of the signing path\<close>

lemma member_Obj [simp]: "member (Obj es) k = Inr (getProp es k)"
  by (simp add: member_def)

lemma omitKey_Obj [simp]: "omitKey key (Obj es) = Inr (filter (\<lambda>e. fst e \<noteq> key) es)"
  by (simp add: omitKey_def)

lemma approved_dealloc:
  "count_list (snd (signTransaction_approved env tx sk pk)) Dealloc =
     (case fst (signTransaction_approved env tx sk pk) of Inr x \<Rightarrow> 1 | Inl e \<Rightarrow> 0)"
  unfolding signTransaction_approved_def Let_def
  by (simp add: io_simps split: sum.split)

lemma approved_last_imp:
  "fst (signTransaction_approved env tx sk pk) = Inr hex \<longrightarrow>
     last (snd (signTransaction_approved env tx sk pk)) = Dealloc \<and>
     snd (signTransaction_approved env tx sk pk) \<noteq> []"
  unfolding signTransaction_approved_def Let_def
  by (simp add: io_simps split: sum.split)

lemmas approved_last = approved_last_imp [THEN mp, THEN conjunct1]
lemmas approved_nonempty = approved_last_imp [THEN mp, THEN conjunct2]

lemma approved_success_imp:
  "fst (signTransaction_approved env (Obj tes) sk pk) = Inr hex \<longrightarrow>
   (\<exists>sc sut sg txb.
     wasm_serializeCall env (getProp tes ''call'') = Inr sc \<and>
     wasm_serializeUnsignedTransaction env
       (Obj (unsignedTransaction (filter (\<lambda>e. fst e \<noteq> ''call'') tes) (Array_from sc))) = Inr sut \<and>
     ed25519_sign env sut (remove0x sk) = Inr sg \<and>
     wasm_serializeTransaction env
       (Obj (signedTransaction (Array_from sg) pk
          (unsignedTransaction (filter (\<lambda>e. fst e \<noteq> ''call'') tes) (Array_from sc)))) = Inr txb \<and>
     hex = bytesToHex txb \<and>
     snd (signTransaction_approved env (Obj tes) sk pk) =
       [SerializeCall (getProp tes ''call''),
        SerializeUnsignedTransaction
          (Obj (unsignedTransaction (filter (\<lambda>e. fst e \<noteq> ''call'') tes) (Array_from sc))),
        Sign sut (remove0x sk),
        SerializeTransaction
          (Obj (signedTransaction (Array_from sg) pk
             (unsignedTransaction (filter (\<lambda>e. fst e \<noteq> ''call'') tes) (Array_from sc)))),
        Dealloc])"
  unfolding signTransaction_approved_def Let_def
  by (simp add: io_simps split: sum.split)

lemma approved_unsigned_imp:
  "SerializeUnsignedTransaction u \<in> set (snd (signTransaction_approved env (Obj tes) sk pk)) \<longrightarrow>
   (\<exists>sc. wasm_serializeCall env (getProp tes ''call'') = Inr sc \<and>
     u = Obj (unsignedTransaction (filter (\<lambda>e. fst e \<noteq> ''call'') tes) (Array_from sc)))"
  unfolding signTransaction_approved_def Let_def
  by (simp add: io_simps split: sum.split)

lemma approved_no_dialog:
  "Dialog c \<notin> set (snd (signTransaction_approved env tx sk pk))"
  unfolding signTransaction_approved_def Let_def
  by (simp add: io_simps split: sum.split)

lemma try_dealloc:
  "count_list (snd (signTransaction_try env origin tx kp)) Dealloc =
     (case fst (signTransaction_try env origin tx kp) of Inr x \<Rightarrow> 1 | Inl e \<Rightarrow> 0)"
  unfolding signTransaction_try_def Let_def
  by (simp add: io_simps approved_dealloc split: sum.split option.split)

lemma try_last_imp:
  "fst (signTransaction_try env origin tx kp) = Inr hex \<longrightarrow>
     last (snd (signTransaction_try env origin tx kp)) = Dealloc"
  unfolding signTransaction_try_def Let_def
  by (auto simp add: io_simps approved_last split: sum.split option.split dest: approved_nonempty)

lemma try_rejected_imp:
  "Dialog c \<in> set (snd (signTransaction_try env origin tx kp)) \<and> snap_dialog env c = Inr False \<longrightarrow>
     fst (signTransaction_try env origin tx kp) = Inl UserRejectedRequest \<and>
     filter is_encoder_call (snd (signTransaction_try env origin tx kp)) = [] \<and>
     filter is_sign_call (snd (signTransaction_try env origin tx kp)) = [] \<and>
     Dealloc \<notin> set (snd (signTransaction_try env origin tx kp)) \<and>
     last (snd (signTransaction_try env origin tx kp)) = Dialog c"
  unfolding signTransaction_try_def Let_def
  by (auto simp add: io_simps approved_no_dialog split: sum.split option.split)

lemma try_unsigned_imp:
  "SerializeUnsignedTransaction u \<in> set (snd (signTransaction_try env origin (Obj tes) kp)) \<longrightarrow>
   (\<exists>sc. wasm_serializeCall env (getProp tes ''call'') = Inr sc \<and>
     u = Obj (unsignedTransaction (filter (\<lambda>e. fst e \<noteq> ''call'') tes) (Array_from sc)))"
  unfolding signTransaction_try_def Let_def
  by (auto simp add: io_simps split: sum.split option.split dest: approved_unsigned_imp [THEN mp])

lemma try_success_imp:
  "fst (signTransaction_try env origin tx kp) = Inr hex \<longrightarrow>
   (\<exists>entropy node sk address content.
      snap_getBip32Entropy env kp = Inr entropy \<and>
      SLIP10Node_fromJSON env entropy = Inr node \<and>
      node_privateKey node = Some sk \<and> sk \<noteq> [] \<and>
      wasm_bechEncodePublicKey env (cleanPublicKeyResponse (node_publicKey node)) = Inr address \<and>
      confirmationContent env origin tx address = Inr content \<and>
      snap_dialog env content = Inr True \<and>
      fst (signTransaction_approved env tx sk (cleanPublicKeyResponse (node_publicKey node)))
        = Inr hex \<and>
      snd (signTransaction_try env origin tx kp) =
        [GetBip32Entropy kp, FromJSON entropy,
         BechEncodePublicKey (cleanPublicKeyResponse (node_publicKey node)), Dialog content]
        @ snd (signTransaction_approved env tx sk (cleanPublicKeyResponse (node_publicKey node))))"
  unfolding signTransaction_try_def Let_def
  by (auto simp add: io_simps split: sum.split option.split)

section \<open>Unrecognised methods\<close>

text \<open>
  C8. A request whose method is neither \<^verbatim>\<open>getAddress\<close> nor \<^verbatim>\<open>signTransaction\<close> fails with
  the generic error \<^verbatim>\<open>Method not found.\<close>, and the handler has called nothing by then: no
  validation, no custody gateway, no codec.
\<close>

theorem unknown_method_not_found:
  assumes "rpc_method req \<noteq> ''getAddress''" and "rpc_method req \<noteq> ''signTransaction''"
  shows "onRpcRequest env origin req = (Inl (JsError ''Method not found.''), [])"
  using assms by (simp add: onRpcRequest_def throwM_def)

theorem unknown_method_not_found_witness:
  "onRpcRequest test_env ''site'' foo_request = (Inl (JsError ''Method not found.''), [])"
  using unknown_method_not_found [of foo_request test_env "''site''"]
  by (simp add: foo_request_def)

section \<open>The guarded body and the two cases as a whole\<close>

lemma guarded_fst: "fst (catchM m (\<lambda>er. bindM wasm_dealloc (\<lambda>u. throwM er))) = fst m"
  by (simp add: catchM_dealloc split: sum.split)

lemma guarded_snd:
  "snd (catchM m (\<lambda>er. bindM wasm_dealloc (\<lambda>u. throwM er))) =
     (case fst m of Inl e \<Rightarrow> snd m @ [Dealloc] | Inr x \<Rightarrow> snd m)"
  by (simp add: catchM_dealloc split: sum.split)

lemma guarded_dealloc:
  assumes "count_list (snd m) Dealloc = (case fst m of Inr x \<Rightarrow> 1 | Inl e \<Rightarrow> 0)"
  shows "count_list (snd (catchM m (\<lambda>er. bindM wasm_dealloc (\<lambda>u. throwM er)))) Dealloc = 1"
  using assms by (simp add: guarded_snd split: sum.split)

lemma guarded_last:
  assumes "\<And>x. fst m = Inr x \<Longrightarrow> last (snd m) = Dealloc"
  shows "last (snd (catchM m (\<lambda>er. bindM wasm_dealloc (\<lambda>u. throwM er)))) = Dealloc"
  using assms by (simp add: guarded_snd split: sum.split)

lemma getAddress_try_dealloc:
  "count_list (snd (getAddress_try env kp)) Dealloc =
     (case fst (getAddress_try env kp) of Inr x \<Rightarrow> 1 | Inl e \<Rightarrow> 0)"
  unfolding getAddress_try_def Let_def
  by (simp add: io_simps split: sum.split)

lemma getAddress_try_success_imp:
  "fst (getAddress_try env kp) = Inr a \<longrightarrow>
     (\<exists>resp. snap_getBip32PublicKey env kp = Inr resp \<and>
        wasm_bechEncodePublicKey env (cleanPublicKeyResponse resp) = Inr a \<and>
        snd (getAddress_try env kp) =
          [GetBip32PublicKey kp, BechEncodePublicKey (cleanPublicKeyResponse resp), Dealloc])"
  unfolding getAddress_try_def Let_def
  by (simp add: io_simps split: sum.split)

lemma getAddress_invalid:
  assumes "fst (superstructValidate (params req) GetAddressStruct) = Some f"
  shows "getAddress env req = (Inl (InvalidParams f), [Validate GetAddressStruct (params req)])"
  using validate_Some [OF assms] by (simp add: getAddress_def io_simps)

lemma getAddress_valid:
  assumes "params req = Obj es" and "run GetAddressStruct [] (Obj es) = []"
  shows "getAddress env req =
     after [Validate GetAddressStruct (Obj es)]
       (catchM (getAddress_try env (getKeypairParams env (getProp es ''keyId'')))
          (\<lambda>er. bindM wasm_dealloc (\<lambda>u. throwM er)))"
  using assms validate_ok [OF assms(2)]
  by (simp add: getAddress_def bindM_call bindM_liftE Let_def)

lemma signTransaction_invalid:
  assumes "fst (superstructValidate (params req) SignTransactionStruct) = Some f"
  shows "signTransaction env origin req =
     (Inl (InvalidParams f), [Validate SignTransactionStruct (params req)])"
  using validate_Some [OF assms] by (simp add: signTransaction_def io_simps)

lemma signTransaction_valid:
  assumes "params req = Obj es" and "run SignTransactionStruct [] (Obj es) = []"
  shows "signTransaction env origin req =
     after [Validate SignTransactionStruct (Obj es)]
       (catchM (signTransaction_try env origin (getProp es ''transaction'')
                  (getKeypairParams env (getProp es ''keyId'')))
          (\<lambda>er. bindM wasm_dealloc (\<lambda>u. throwM er)))"
  using assms validate_ok [OF assms(2)]
  by (simp add: signTransaction_def bindM_call bindM_liftE Let_def)

lemma validate_cases:
  obtains (invalid) f where "fst (superstructValidate v s) = Some f"
  | (valid) "run s [] v = []"
  by (cases "fst (superstructValidate v s)") (auto simp: validate_None)

section \<open>Validation failures\<close>

text \<open>
  C6. When the parameters of a \<^verbatim>\<open>getAddress\<close> or \<^verbatim>\<open>signTransaction\<close> request fail
  validation, the handler throws the invalid-params error at once: the validation is the
  only call it has made, so no custody-gateway call (\<^verbatim>\<open>snap_getBip32PublicKey\<close>,
  \<^verbatim>\<open>snap_getBip32Entropy\<close>) and no codec call precedes the error.
\<close>

theorem validation_error_before_any_call:
  assumes "(rpc_method req = ''getAddress'' \<and> S = GetAddressStruct) \<or>
           (rpc_method req = ''signTransaction'' \<and> S = SignTransactionStruct)"
    and "fst (superstructValidate (params req) S) = Some f"
  shows "onRpcRequest env origin req = (Inl (InvalidParams f), [Validate S (params req)]) \<and>
         filter is_custody_call (snd (onRpcRequest env origin req)) = [] \<and>
         filter is_codec_call (snd (onRpcRequest env origin req)) = []"
proof -
  have "onRpcRequest env origin req = (Inl (InvalidParams f), [Validate S (params req)])"
    using assms
    by (auto simp: onRpcRequest_def getAddress_invalid signTransaction_invalid)
  then show ?thesis by simp
qed

lemma malformed_validation:
  "fst (superstructValidate (params malformed_request) GetAddressStruct) =
     Some (toFailure [Key ''keyId''] ''number'' (Str ''0''))"
  by code_simp

theorem validation_error_before_any_call_witness:
  "onRpcRequest test_env ''site'' malformed_request =
     (Inl (InvalidParams (toFailure [Key ''keyId''] ''number'' (Str ''0''))),
      [Validate GetAddressStruct (params malformed_request)]) \<and>
   filter is_custody_call (snd (onRpcRequest test_env ''site'' malformed_request)) = [] \<and>
   filter is_codec_call (snd (onRpcRequest test_env ''site'' malformed_request)) = []"
  using validation_error_before_any_call
    [of malformed_request GetAddressStruct "toFailure [Key ''keyId''] ''number'' (Str ''0'')"
        test_env "''site''"]
    malformed_validation
  by (simp add: malformed_request_def)

section \<open>Release of the codec\<close>

lemma getAddress_try_last:
  assumes "fst (getAddress_try env kp) = Inr a"
  shows "last (snd (getAddress_try env kp)) = Dealloc"
  using getAddress_try_success_imp [THEN mp, OF assms] by auto

lemma try_last:
  assumes "fst (signTransaction_try env origin tx kp) = Inr hex"
  shows "last (snd (signTransaction_try env origin tx kp)) = Dealloc"
  using try_last_imp [THEN mp, OF assms] .

text \<open>
  C4 (as the code has it). In a \<^verbatim>\<open>getAddress\<close> or \<^verbatim>\<open>signTransaction\<close> request whose
  parameters pass validation, \<^verbatim>\<open>wasm.dealloc()\<close> is called exactly once and is the last
  call of the request, whether the request completes, the custody gateway or a codec call
  throws, the operator declines or signing throws. When validation fails the codec is
  not released: the handler has not touched it.
\<close>

theorem release_once_after_validation:
  assumes "(rpc_method req = ''getAddress'' \<and> S = GetAddressStruct) \<or>
           (rpc_method req = ''signTransaction'' \<and> S = SignTransactionStruct)"
  shows "count_list (snd (onRpcRequest env origin req)) Dealloc =
           (if fst (superstructValidate (params req) S) = None then 1 else 0) \<and>
         (fst (superstructValidate (params req) S) = None \<longrightarrow>
            last (snd (onRpcRequest env origin req)) = Dealloc)"
proof (cases rule: validate_cases [of "params req" S])
  case (invalid f)
  with assms have "onRpcRequest env origin req =
      (Inl (InvalidParams f), [Validate S (params req)])"
    by (auto simp: onRpcRequest_def getAddress_invalid signTransaction_invalid)
  with invalid show ?thesis by simp
next
  case valid
  then have ok: "fst (superstructValidate (params req) S) = None"
    by (simp add: validate_None)
  from assms show ?thesis
  proof
    assume a: "rpc_method req = ''getAddress'' \<and> S = GetAddressStruct"
    with valid obtain es where es: "params req = Obj es"
      by (auto simp: run_GetAddress_Nil)
    let ?m = "getAddress_try env (getKeypairParams env (getProp es ''keyId''))"
    have run: "onRpcRequest env origin req =
        after [Validate GetAddressStruct (Obj es)]
          (catchM ?m (\<lambda>er. bindM wasm_dealloc (\<lambda>u. throwM er)))"
      using a es valid by (simp add: onRpcRequest_def getAddress_valid)
    have "count_list (snd (catchM ?m (\<lambda>er. bindM wasm_dealloc (\<lambda>u. throwM er)))) Dealloc = 1"
      by (rule guarded_dealloc) (rule getAddress_try_dealloc)
    moreover have "last (snd (catchM ?m (\<lambda>er. bindM wasm_dealloc (\<lambda>u. throwM er)))) = Dealloc"
      by (rule guarded_last) (rule getAddress_try_last)
    moreover have "snd (catchM ?m (\<lambda>er. bindM wasm_dealloc (\<lambda>u. throwM er))) \<noteq> []"
      using calculation(1) by auto
    ultimately show ?thesis
      using ok by (simp add: run)
  next
    assume a: "rpc_method req = ''signTransaction'' \<and> S = SignTransactionStruct"
    with valid obtain es where es: "params req = Obj es"
      by (auto dest: run_SignTransaction_Nil)
    let ?m = "signTransaction_try env origin (getProp es ''transaction'')
                (getKeypairParams env (getProp es ''keyId''))"
    have run: "onRpcRequest env origin req =
        after [Validate SignTransactionStruct (Obj es)]
          (catchM ?m (\<lambda>er. bindM wasm_dealloc (\<lambda>u. throwM er)))"
      using a es valid by (simp add: onRpcRequest_def signTransaction_valid)
    have "count_list (snd (catchM ?m (\<lambda>er. bindM wasm_dealloc (\<lambda>u. throwM er)))) Dealloc = 1"
      by (rule guarded_dealloc) (rule try_dealloc)
    moreover have "last (snd (catchM ?m (\<lambda>er. bindM wasm_dealloc (\<lambda>u. throwM er)))) = Dealloc"
      by (rule guarded_last) (rule try_last)
    moreover have "snd (catchM ?m (\<lambda>er. bindM wasm_dealloc (\<lambda>u. throwM er))) \<noteq> []"
      using calculation(1) by auto
    ultimately show ?thesis
      using ok by (simp add: run)
  qed
qed

lemma sign_request_validation:
  "fst (superstructValidate (params sign_request) SignTransactionStruct) = None"
  by code_simp

theorem release_once_after_validation_witness:
  "count_list (snd (onRpcRequest test_env ''site'' sign_request)) Dealloc = 1 \<and>
   last (snd (onRpcRequest test_env ''site'' sign_request)) = Dealloc"
  using release_once_after_validation [of sign_request SignTransactionStruct test_env "''site''"]
    sign_request_validation
  by (simp add: sign_request_def)

theorem no_release_on_validation_failure:
  "fst (onRpcRequest test_env ''site'' malformed_request) =
     Inl (InvalidParams (toFailure [Key ''keyId''] ''number'' (Str ''0''))) \<and>
   count_list (snd (onRpcRequest test_env ''site'' malformed_request)) Dealloc \<noteq> 1"
  by code_simp

text \<open>
  An array as call message passes validation: the request is carried to the dialog, the
  encoder and the signer, and the codec is released once.
\<close>

lemma array_call_request_signed:
  "fst (superstructValidate (params array_call_request) SignTransactionStruct) = None \<and>
   fst (onRpcRequest test_env ''site'' array_call_request) = Inr ''0xab01'' \<and>
   SerializeCall (Arr []) \<in> set (snd (onRpcRequest test_env ''site'' array_call_request)) \<and>
   count_list (snd (onRpcRequest test_env ''site'' array_call_request)) Dealloc = 1"
  by code_simp

section \<open>Rejection at the confirmation dialog\<close>

lemma try_rejected_trace_imp:
  "Dialog c \<in> set (snd (signTransaction_try env origin tx kp)) \<and> snap_dialog env c = Inr False \<longrightarrow>
     (\<exists>entropy node.
        snap_getBip32Entropy env kp = Inr entropy \<and>
        SLIP10Node_fromJSON env entropy = Inr node \<and>
        snd (signTransaction_try env origin tx kp) =
          [GetBip32Entropy kp, FromJSON entropy,
           BechEncodePublicKey (cleanPublicKeyResponse (node_publicKey node)), Dialog c])"
  unfolding signTransaction_try_def Let_def
  by (auto simp add: io_simps approved_no_dialog split: sum.split option.split)

text \<open>
  C1. When the operator declines at the confirmation dialog of a \<^verbatim>\<open>signTransaction\<close>
  request (the dialog was shown and answered \<open>False\<close>), the handler throws the
  user-rejected error, the request has called neither the Canonical Encoder
  (\<^verbatim>\<open>serializeCall\<close>, \<^verbatim>\<open>serializeUnsignedTransaction\<close>, \<^verbatim>\<open>serializeTransaction\<close>) nor the
  signer, and the codec is still released: \<^verbatim>\<open>dealloc\<close> is called once, as the last call.
  The calls of such a request are exactly: the validation, the entropy request, the node
  derivation, the address encoding, the dialog and the release.
\<close>

theorem rejection_skips_encoding_and_signing:
  assumes "rpc_method req = ''signTransaction''"
    and "Dialog c \<in> set (snd (onRpcRequest env origin req))"
    and "snap_dialog env c = Inr False"
  shows "fst (onRpcRequest env origin req) = Inl UserRejectedRequest \<and>
         filter is_encoder_call (snd (onRpcRequest env origin req)) = [] \<and>
         filter is_sign_call (snd (onRpcRequest env origin req)) = [] \<and>
         count_list (snd (onRpcRequest env origin req)) Dealloc = 1 \<and>
         last (snd (onRpcRequest env origin req)) = Dealloc \<and>
         (\<forall>x. SerializeCall x \<notin> set (snd (onRpcRequest env origin req))) \<and>
         (\<forall>x. SerializeUnsignedTransaction x \<notin> set (snd (onRpcRequest env origin req))) \<and>
         (\<forall>x. SerializeTransaction x \<notin> set (snd (onRpcRequest env origin req))) \<and>
         (\<forall>m k. Sign m k \<notin> set (snd (onRpcRequest env origin req))) \<and>
         (\<exists>kp entropy pk.
            snd (onRpcRequest env origin req) =
              [Validate SignTransactionStruct (params req), GetBip32Entropy kp,
               FromJSON entropy, BechEncodePublicKey pk, Dialog c, Dealloc])"
proof (cases rule: validate_cases [of "params req" SignTransactionStruct])
  case (invalid f)
  with assms(1) have "snd (onRpcRequest env origin req) =
      [Validate SignTransactionStruct (params req)]"
    by (simp add: onRpcRequest_def signTransaction_invalid)
  with assms(2) show ?thesis by simp
next
  case valid
  then obtain es where es: "params req = Obj es"
    by (auto dest: run_SignTransaction_Nil)
  let ?kp = "getKeypairParams env (getProp es ''keyId'')"
  let ?m = "signTransaction_try env origin (getProp es ''transaction'') ?kp"
  have run: "onRpcRequest env origin req =
      after [Validate SignTransactionStruct (Obj es)]
        (catchM ?m (\<lambda>er. bindM wasm_dealloc (\<lambda>u. throwM er)))"
    using assms(1) es valid by (simp add: onRpcRequest_def signTransaction_valid)
  have shown: "Dialog c \<in> set (snd ?m)"
    using assms(2) by (auto simp: run guarded_snd split: sum.splits)
  with assms(3) have rej: "fst ?m = Inl UserRejectedRequest"
    using try_rejected_imp [of c env origin "getProp es ''transaction''" ?kp]
    by simp
  from shown assms(3) try_rejected_trace_imp [of c env origin "getProp es ''transaction''" ?kp]
  obtain entropy and node :: slip10_node where
    "snd ?m = [GetBip32Entropy ?kp, FromJSON entropy,
       BechEncodePublicKey (cleanPublicKeyResponse (node_publicKey node)), Dialog c]"
    by blast
  with rej have trace: "snd (onRpcRequest env origin req) =
      [Validate SignTransactionStruct (params req), GetBip32Entropy ?kp, FromJSON entropy,
       BechEncodePublicKey (cleanPublicKeyResponse (node_publicKey node)), Dialog c, Dealloc]"
    by (simp add: run guarded_snd es)
  have "fst (onRpcRequest env origin req) = Inl UserRejectedRequest"
    using rej by (simp add: run guarded_fst)
  moreover from trace have "\<exists>kp entropy pk.
      snd (onRpcRequest env origin req) =
        [Validate SignTransactionStruct (params req), GetBip32Entropy kp,
         FromJSON entropy, BechEncodePublicKey pk, Dialog c, Dealloc]"
    by blast
  ultimately show ?thesis
    by (simp add: trace)
qed

lemma rejected_run:
  "Dialog test_content
     \<in> set (snd (onRpcRequest rejecting_env ''site'' sign_request)) \<and>
   snap_dialog rejecting_env
     test_content
     = Inr False"
  by code_simp

theorem rejection_skips_encoding_and_signing_witness:
  "fst (onRpcRequest rejecting_env ''site'' sign_request) = Inl UserRejectedRequest \<and>
   filter is_encoder_call (snd (onRpcRequest rejecting_env ''site'' sign_request)) = [] \<and>
   filter is_sign_call (snd (onRpcRequest rejecting_env ''site'' sign_request)) = [] \<and>
   count_list (snd (onRpcRequest rejecting_env ''site'' sign_request)) Dealloc = 1 \<and>
   last (snd (onRpcRequest rejecting_env ''site'' sign_request)) = Dealloc \<and>
   (\<forall>x. SerializeCall x \<notin> set (snd (onRpcRequest rejecting_env ''site'' sign_request))) \<and>
   (\<forall>x. SerializeUnsignedTransaction x
      \<notin> set (snd (onRpcRequest rejecting_env ''site'' sign_request))) \<and>
   (\<forall>x. SerializeTransaction x \<notin> set (snd (onRpcRequest rejecting_env ''site'' sign_request))) \<and>
   (\<forall>m k. Sign m k \<notin> set (snd (onRpcRequest rejecting_env ''site'' sign_request))) \<and>
   (\<exists>kp entropy pk.
      snd (onRpcRequest rejecting_env ''site'' sign_request) =
        [Validate SignTransactionStruct (params sign_request), GetBip32Entropy kp,
         FromJSON entropy, BechEncodePublicKey pk, Dialog test_content, Dealloc])"
  using rejection_skips_encoding_and_signing
    [of sign_request test_content rejecting_env "''site''"]
    rejected_run
  by (simp add: sign_request_def)

section \<open>The key identifier\<close>







section \<open>Loose and strict parameter objects\<close>

lemma run_Sign_unknown:
  assumes "getProp es ''keyId'' = Num n"
    and "run TransactionStruct [Key ''transaction''] (getProp es ''transaction'') = []"
  shows "run SignTransactionStruct [] (Obj es) =
     map (\<lambda>e. toFailure [Key (fst e)] ''never'' (snd e))
       (filter (\<lambda>e. fst e \<noteq> ''transaction'' \<and> fst e \<noteq> ''keyId'') es)"
  using assms by (simp add: SignTransactionStruct_def)

text \<open>
  C10. \<^verbatim>\<open>GetAddressStruct\<close> is a loose \<^verbatim>\<open>type\<close>, \<^verbatim>\<open>SignTransactionStruct\<close> a strict
  \<^verbatim>\<open>object\<close>: a parameter object with a numeric \<^verbatim>\<open>keyId\<close>, a valid \<^verbatim>\<open>transaction\<close> and a
  further property passes the validation of \<^verbatim>\<open>getAddress\<close> and fails that of
  \<^verbatim>\<open>signTransaction\<close>, whose failures are exactly the unknown properties.
\<close>

theorem extra_property_loose_vs_strict:
  assumes "getProp es ''keyId'' = Num n"
    and "run TransactionStruct [Key ''transaction''] (getProp es ''transaction'') = []"
    and "(k, x) \<in> set es" and "k \<noteq> ''transaction''" and "k \<noteq> ''keyId''"
  shows "fst (superstructValidate (Obj es) GetAddressStruct) = None \<and>
         fst (superstructValidate (Obj es) SignTransactionStruct) \<noteq> None \<and>
         run SignTransactionStruct [] (Obj es) =
           map (\<lambda>e. toFailure [Key (fst e)] ''never'' (snd e))
             (filter (\<lambda>e. fst e \<noteq> ''transaction'' \<and> fst e \<noteq> ''keyId'') es)"
proof -
  have loose: "fst (superstructValidate (Obj es) GetAddressStruct) = None"
    using assms(1) by (simp add: validate_None run_GetAddress_Nil)
  have fails: "run SignTransactionStruct [] (Obj es) =
      map (\<lambda>e. toFailure [Key (fst e)] ''never'' (snd e))
        (filter (\<lambda>e. fst e \<noteq> ''transaction'' \<and> fst e \<noteq> ''keyId'') es)"
    using assms(1,2) by (rule run_Sign_unknown)
  have "filter (\<lambda>e. fst e \<noteq> ''transaction'' \<and> fst e \<noteq> ''keyId'') es \<noteq> []"
    using assms(3-5) by (force simp: filter_empty_conv)
  with fails have "run SignTransactionStruct [] (Obj es) \<noteq> []"
    by simp
  then have "fst (superstructValidate (Obj es) SignTransactionStruct) \<noteq> None"
    by (simp add: validate_None)
  with loose fails show ?thesis by simp
qed

lemma extra_params_shape:
  "getProp extra_params ''keyId'' = Num 0 \<and>
   run TransactionStruct [Key ''transaction''] (getProp extra_params ''transaction'') = [] \<and>
   (''memo'', Str ''hello'') \<in> set extra_params \<and>
   filter (\<lambda>e. fst e \<noteq> ''transaction'' \<and> fst e \<noteq> ''keyId'') extra_params
     = [(''memo'', Str ''hello'')]"
  by code_simp

theorem extra_property_loose_vs_strict_witness:
  "fst (superstructValidate (Obj extra_params) GetAddressStruct) = None \<and>
   fst (superstructValidate (Obj extra_params) SignTransactionStruct) \<noteq> None \<and>
   run SignTransactionStruct [] (Obj extra_params) =
     [toFailure [Key ''memo''] ''never'' (Str ''hello'')]"
  using extra_property_loose_vs_strict [of extra_params 0 "''memo''" "Str ''hello''"]
    extra_params_shape
  by simp

section \<open>Normalising the public key\<close>

lemma remove0x_prefixed: "remove0x (''0x'' @ s) = s"
  by (simp add: remove0x_def)

lemma getAddress_success:
  assumes "rpc_method req = ''getAddress''"
    and "fst (onRpcRequest env origin req) = Inr address"
  shows "\<exists>es resp.
     params req = Obj es \<and>
     snap_getBip32PublicKey env (getKeypairParams env (getProp es ''keyId'')) = Inr resp \<and>
     wasm_bechEncodePublicKey env (cleanPublicKeyResponse resp) = Inr address \<and>
     snd (onRpcRequest env origin req) =
       [Validate GetAddressStruct (Obj es),
        GetBip32PublicKey (getKeypairParams env (getProp es ''keyId'')),
        BechEncodePublicKey (cleanPublicKeyResponse resp),
        Dealloc]"
proof (cases rule: validate_cases [of "params req" GetAddressStruct])
  case (invalid f)
  with assms show ?thesis
    by (simp add: onRpcRequest_def getAddress_invalid)
next
  case valid
  then obtain es where es: "params req = Obj es"
    by (auto simp: run_GetAddress_Nil)
  let ?kp = "getKeypairParams env (getProp es ''keyId'')"
  have run: "onRpcRequest env origin req =
      after [Validate GetAddressStruct (Obj es)]
        (catchM (getAddress_try env ?kp) (\<lambda>er. bindM wasm_dealloc (\<lambda>u. throwM er)))"
    using assms(1) es valid by (simp add: onRpcRequest_def getAddress_valid)
  with assms(2) have ok: "fst (getAddress_try env ?kp) = Inr address"
    by (simp add: guarded_fst)
  from getAddress_try_success_imp [THEN mp, OF ok]
  obtain resp where
    "snap_getBip32PublicKey env ?kp = Inr resp"
    "wasm_bechEncodePublicKey env (cleanPublicKeyResponse resp) = Inr address"
    "snd (getAddress_try env ?kp) =
       [GetBip32PublicKey ?kp, BechEncodePublicKey (cleanPublicKeyResponse resp), Dealloc]"
    by blast
  with es ok show ?thesis
    by (simp add: run guarded_snd)
qed

text \<open>
  C7. In every successful \<^verbatim>\<open>getAddress\<close> request the custody gateway is asked once, its raw
  response is normalised by removing a leading \<^verbatim>\<open>0x\<close> and then the first two characters
  (the one-byte flag prefix), and the address returned is the codec's encoding of that
  normalised key: the only address encoding of the request is of the normalised key. For a
  response \<^verbatim>\<open>0x\<close> \<open>a b key\<close> the address is the encoding of \<open>key\<close>.
\<close>

theorem address_from_normalised_key:
  assumes "rpc_method req = ''getAddress''"
    and "fst (onRpcRequest env origin req) = Inr address"
  shows "\<exists>kp resp.
     filter is_custody_call (snd (onRpcRequest env origin req)) = [GetBip32PublicKey kp] \<and>
     snap_getBip32PublicKey env kp = Inr resp \<and>
     cleanPublicKeyResponse resp = drop 2 (remove0x resp) \<and>
     filter is_bech_call (snd (onRpcRequest env origin req)) =
       [BechEncodePublicKey (drop 2 (remove0x resp))] \<and>
     wasm_bechEncodePublicKey env (drop 2 (remove0x resp)) = Inr address \<and>
     (\<forall>a b key. resp = ''0x'' @ a # b # key \<longrightarrow>
        wasm_bechEncodePublicKey env key = Inr address)"
proof -
  from getAddress_success [OF assms]
  obtain es resp where
    gw: "snap_getBip32PublicKey env (getKeypairParams env (getProp es ''keyId'')) = Inr resp"
    and enc: "wasm_bechEncodePublicKey env (cleanPublicKeyResponse resp) = Inr address"
    and tr: "snd (onRpcRequest env origin req) =
       [Validate GetAddressStruct (Obj es),
        GetBip32PublicKey (getKeypairParams env (getProp es ''keyId'')),
        BechEncodePublicKey (cleanPublicKeyResponse resp),
        Dealloc]"
    by blast
  have clean: "cleanPublicKeyResponse resp = drop 2 (remove0x resp)"
    by (simp add: cleanPublicKeyResponse_def)
  have "wasm_bechEncodePublicKey env key = Inr address"
    if "resp = ''0x'' @ a # b # key" for a b key
  proof -
    from that have "remove0x resp = a # b # key"
      by (simp only: remove0x_prefixed)
    with enc show ?thesis
      by (simp add: clean)
  qed
  with gw enc tr show ?thesis
    by (simp add: clean)
qed

lemma address_request_run:
  "rpc_method address_request = ''getAddress'' \<and>
   fst (onRpcRequest test_env ''site'' address_request) = Inr ''sov1aabb''"
  by code_simp

theorem address_from_normalised_key_witness:
  "\<exists>kp resp.
     filter is_custody_call (snd (onRpcRequest test_env ''site'' address_request)) =
       [GetBip32PublicKey kp] \<and>
     snap_getBip32PublicKey test_env kp = Inr resp \<and>
     cleanPublicKeyResponse resp = drop 2 (remove0x resp) \<and>
     filter is_bech_call (snd (onRpcRequest test_env ''site'' address_request)) =
       [BechEncodePublicKey (drop 2 (remove0x resp))] \<and>
     wasm_bechEncodePublicKey test_env (drop 2 (remove0x resp)) = Inr ''sov1aabb'' \<and>
     (\<forall>a b key. resp = ''0x'' @ a # b # key \<longrightarrow>
        wasm_bechEncodePublicKey test_env key = Inr ''sov1aabb'')"
  using address_from_normalised_key [of address_request test_env "''site''" "''sov1aabb''"]
    address_request_run
  by simp

section \<open>A signing request that succeeds\<close>

lemma confirmationContent_address_imp:
  "confirmationContent env origin tx address = Inr content \<longrightarrow>
     length content = 17 \<and> content ! 5 = Text ''from address:'' \<and> content ! 6 = Copyable address"
  unfolding confirmationContent_def bindE_def
  by (auto split: sum.split)

lemma unsignedTransaction_no_signature:
  assumes "set (map fst tes) \<subseteq> set transaction_keys"
  shows "''signature'' \<notin> set (map fst (unsignedTransaction (filter (\<lambda>e. fst e \<noteq> ''call'') tes) rm))"
    and "''pub_key'' \<notin> set (map fst (unsignedTransaction (filter (\<lambda>e. fst e \<noteq> ''call'') tes) rm))"
proof -
  have "set (map fst (unsignedTransaction (filter (\<lambda>e. fst e \<noteq> ''call'') tes) rm))
      \<subseteq> insert ''runtime_msg'' (set transaction_keys)"
  proof -
    have "set (map fst (filter (\<lambda>e. fst e \<noteq> ''call'') tes)) \<subseteq> set (map fst tes)"
      by auto
    with assms unsignedTransaction_keys [of "filter (\<lambda>e. fst e \<noteq> ''call'') tes" rm]
    show ?thesis by blast
  qed
  then show "''signature'' \<notin> set (map fst (unsignedTransaction (filter (\<lambda>e. fst e \<noteq> ''call'') tes) rm))"
    and "''pub_key'' \<notin> set (map fst (unsignedTransaction (filter (\<lambda>e. fst e \<noteq> ''call'') tes) rm))"
    by (auto simp: transaction_keys_def)
qed

lemma signTransaction_success:
  assumes "rpc_method req = ''signTransaction''"
    and "fst (onRpcRequest env origin req) = Inr txHex"
  obtains es tes entropy node sk address content sc sut sg txb where
    "params req = Obj es"
    and "getProp es ''transaction'' = Obj tes"
    and "set (map fst tes) \<subseteq> set transaction_keys"
    and "snap_getBip32Entropy env (getKeypairParams env (getProp es ''keyId'')) = Inr entropy"
    and "SLIP10Node_fromJSON env entropy = Inr node"
    and "node_privateKey node = Some sk"
    and "wasm_bechEncodePublicKey env (cleanPublicKeyResponse (node_publicKey node)) = Inr address"
    and "confirmationContent env origin (Obj tes) address = Inr content"
    and "snap_dialog env content = Inr True"
    and "wasm_serializeCall env (getProp tes ''call'') = Inr sc"
    and "wasm_serializeUnsignedTransaction env
       (Obj (unsignedTransaction (filter (\<lambda>e. fst e \<noteq> ''call'') tes) (Array_from sc))) = Inr sut"
    and "ed25519_sign env sut (remove0x sk) = Inr sg"
    and "wasm_serializeTransaction env
       (Obj (signedTransaction (Array_from sg) (cleanPublicKeyResponse (node_publicKey node))
          (unsignedTransaction (filter (\<lambda>e. fst e \<noteq> ''call'') tes) (Array_from sc)))) = Inr txb"
    and "txHex = bytesToHex txb"
    and "snd (onRpcRequest env origin req) =
       [Validate SignTransactionStruct (Obj es),
        GetBip32Entropy (getKeypairParams env (getProp es ''keyId'')),
        FromJSON entropy,
        BechEncodePublicKey (cleanPublicKeyResponse (node_publicKey node)),
        Dialog content,
        SerializeCall (getProp tes ''call''),
        SerializeUnsignedTransaction
          (Obj (unsignedTransaction (filter (\<lambda>e. fst e \<noteq> ''call'') tes) (Array_from sc))),
        Sign sut (remove0x sk),
        SerializeTransaction
          (Obj (signedTransaction (Array_from sg) (cleanPublicKeyResponse (node_publicKey node))
             (unsignedTransaction (filter (\<lambda>e. fst e \<noteq> ''call'') tes) (Array_from sc)))),
        Dealloc]"
proof (cases rule: validate_cases [of "params req" SignTransactionStruct])
  case (invalid f)
  with assms show ?thesis
    by (simp add: onRpcRequest_def signTransaction_invalid)
next
  case valid
  from run_SignTransaction_Nil [OF valid]
  obtain es tes where es: "params req = Obj es"
    and tes: "getProp es ''transaction'' = Obj tes"
    and keys: "set (map fst tes) \<subseteq> set transaction_keys"
    by blast
  let ?kp = "getKeypairParams env (getProp es ''keyId'')"
  have run: "onRpcRequest env origin req =
      after [Validate SignTransactionStruct (Obj es)]
        (catchM (signTransaction_try env origin (Obj tes) ?kp)
           (\<lambda>er. bindM wasm_dealloc (\<lambda>u. throwM er)))"
    using assms(1) es tes valid by (simp add: onRpcRequest_def signTransaction_valid)
  with assms(2) have ok: "fst (signTransaction_try env origin (Obj tes) ?kp) = Inr txHex"
    by (simp add: guarded_fst)
  from try_success_imp [THEN mp, OF ok]
  obtain entropy node sk address content where
    pre: "snap_getBip32Entropy env ?kp = Inr entropy"
      "SLIP10Node_fromJSON env entropy = Inr node"
      "node_privateKey node = Some sk"
      "wasm_bechEncodePublicKey env (cleanPublicKeyResponse (node_publicKey node)) = Inr address"
      "confirmationContent env origin (Obj tes) address = Inr content"
      "snap_dialog env content = Inr True"
    and app: "fst (signTransaction_approved env (Obj tes) sk
        (cleanPublicKeyResponse (node_publicKey node))) = Inr txHex"
    and tr: "snd (signTransaction_try env origin (Obj tes) ?kp) =
        [GetBip32Entropy ?kp, FromJSON entropy,
         BechEncodePublicKey (cleanPublicKeyResponse (node_publicKey node)), Dialog content]
        @ snd (signTransaction_approved env (Obj tes) sk
            (cleanPublicKeyResponse (node_publicKey node)))"
    by blast
  from approved_success_imp [THEN mp, OF app]
  obtain sc sut sg txb where
    post: "wasm_serializeCall env (getProp tes ''call'') = Inr sc"
      "wasm_serializeUnsignedTransaction env
        (Obj (unsignedTransaction (filter (\<lambda>e. fst e \<noteq> ''call'') tes) (Array_from sc))) = Inr sut"
      "ed25519_sign env sut (remove0x sk) = Inr sg"
      "wasm_serializeTransaction env
        (Obj (signedTransaction (Array_from sg) (cleanPublicKeyResponse (node_publicKey node))
          (unsignedTransaction (filter (\<lambda>e. fst e \<noteq> ''call'') tes) (Array_from sc)))) = Inr txb"
      "txHex = bytesToHex txb"
    and tr': "snd (signTransaction_approved env (Obj tes) sk
          (cleanPublicKeyResponse (node_publicKey node))) =
       [SerializeCall (getProp tes ''call''),
        SerializeUnsignedTransaction
          (Obj (unsignedTransaction (filter (\<lambda>e. fst e \<noteq> ''call'') tes) (Array_from sc))),
        Sign sut (remove0x sk),
        SerializeTransaction
          (Obj (signedTransaction (Array_from sg) (cleanPublicKeyResponse (node_publicKey node))
             (unsignedTransaction (filter (\<lambda>e. fst e \<noteq> ''call'') tes) (Array_from sc)))),
        Dealloc]"
    by blast
  have trace: "snd (onRpcRequest env origin req) =
       [Validate SignTransactionStruct (Obj es),
        GetBip32Entropy ?kp,
        FromJSON entropy,
        BechEncodePublicKey (cleanPublicKeyResponse (node_publicKey node)),
        Dialog content,
        SerializeCall (getProp tes ''call''),
        SerializeUnsignedTransaction
          (Obj (unsignedTransaction (filter (\<lambda>e. fst e \<noteq> ''call'') tes) (Array_from sc))),
        Sign sut (remove0x sk),
        SerializeTransaction
          (Obj (signedTransaction (Array_from sg) (cleanPublicKeyResponse (node_publicKey node))
             (unsignedTransaction (filter (\<lambda>e. fst e \<noteq> ''call'') tes) (Array_from sc)))),
        Dealloc]"
    using ok by (simp add: run guarded_snd tr tr')
  show ?thesis
    by (rule that [OF es tes keys pre post trace])
qed

lemma signedTransaction_shape:
  assumes "set (map fst tes) \<subseteq> set transaction_keys"
  shows "signedTransaction sig pk (unsignedTransaction (filter (\<lambda>e. fst e \<noteq> ''call'') tes) rm) =
      (''signature'', Obj [(''msg_sig'', sig)]) # (''pub_key'', Str pk) #
        unsignedTransaction (filter (\<lambda>e. fst e \<noteq> ''call'') tes) rm"
  by (rule signedTransaction_append)
     (rule unsignedTransaction_distinct unsignedTransaction_no_signature [OF assms])+

lemma bytesToHex_explicit:
  "bytesToHex bs =
     ''0x'' @ concat (map (\<lambda>b. [''0123456789abcdef'' ! (unat b div 16),
                                  ''0123456789abcdef'' ! (unat b mod 16)]) bs)"
proof -
  have "unat b div 16 < 16" for b :: byte
    using unsigned_less [of b, where ?'a = nat] by simp
  then show ?thesis
    by (simp add: bytesToHex_def hexDigit_def)
qed

lemma remove0x_explicit:
  "remove0x s = (if take 2 s = ''0x'' \<or> take 2 s = ''0X'' then drop 2 s else s)"
  by (simp add: remove0x_def)

text \<open>
  C2. In every \<^verbatim>\<open>signTransaction\<close> request that returns, the one call of the signer is made
  on exactly the bytes the codec returned for the unsigned transaction
  (\<^verbatim>\<open>serializedUnsignedTransaction\<close>), with the private key of the node derived for the
  request, its \<^verbatim>\<open>0x\<close> removed. The value returned is \<^verbatim>\<open>0x\<close> followed by two lower-case
  hexadecimal digits for each byte the codec returned for the signed transaction, and the
  signed transaction is the object \<^verbatim>\<open>{ signature: { msg_sig }, pub_key, ...unsigned
  transaction }\<close>, with \<^verbatim>\<open>msg_sig\<close> the array of the bytes of the signature just computed and
  \<^verbatim>\<open>pub_key\<close> the node's public key without \<^verbatim>\<open>0x\<close> and flag byte. The calls of such a
  request are exactly the ten listed, the encoder among them three times: on the call
  message, on the unsigned transaction and on the signed transaction.
\<close>

theorem signature_over_canonical_unsigned_bytes:
  assumes "rpc_method req = ''signTransaction''"
    and "fst (onRpcRequest env origin req) = Inr txHex"
  shows "\<exists>es tes sc utx sut sk sg pk txb kp entropy node nsk content.
     params req = Obj es \<and>
     getProp es ''transaction'' = Obj tes \<and>
     wasm_serializeCall env (getProp tes ''call'') = Inr sc \<and>
     utx = unsignedTransaction (filter (\<lambda>e. fst e \<noteq> ''call'') tes) (Array_from sc) \<and>
     wasm_serializeUnsignedTransaction env (Obj utx) = Inr sut \<and>
     filter is_sign_call (snd (onRpcRequest env origin req)) = [Sign sut sk] \<and>
     ed25519_sign env sut sk = Inr sg \<and>
     wasm_serializeTransaction env
       (Obj ((''signature'', Obj [(''msg_sig'', Array_from sg)]) # (''pub_key'', Str pk) # utx))
       = Inr txb \<and>
     txHex = bytesToHex txb \<and>
     filter is_encoder_call (snd (onRpcRequest env origin req)) =
       [SerializeCall (getProp tes ''call''),
        SerializeUnsignedTransaction (Obj utx),
        SerializeTransaction
          (Obj ((''signature'', Obj [(''msg_sig'', Array_from sg)]) # (''pub_key'', Str pk) # utx))] \<and>
     snap_getBip32Entropy env kp = Inr entropy \<and>
     SLIP10Node_fromJSON env entropy = Inr node \<and>
     node_privateKey node = Some nsk \<and>
     sk = (if take 2 nsk = ''0x'' \<or> take 2 nsk = ''0X'' then drop 2 nsk else nsk) \<and>
     pk = drop 2 (if take 2 (node_publicKey node) = ''0x'' \<or> take 2 (node_publicKey node) = ''0X''
                  then drop 2 (node_publicKey node) else node_publicKey node) \<and>
     Array_from sg = Arr (map (\<lambda>b. Num (of_nat (unat b))) sg) \<and>
     Array_from sc = Arr (map (\<lambda>b. Num (of_nat (unat b))) sc) \<and>
     (distinct (map fst tes) \<longrightarrow>
        utx = filter (\<lambda>e. fst e \<noteq> ''call'') tes
              @ [(''runtime_msg'', Arr (map (\<lambda>b. Num (of_nat (unat b))) sc))]) \<and>
     txHex = ''0x'' @ concat (map (\<lambda>b. [''0123456789abcdef'' ! (unat b div 16),
                                         ''0123456789abcdef'' ! (unat b mod 16)]) txb) \<and>
     snd (onRpcRequest env origin req) =
       [Validate SignTransactionStruct (params req),
        GetBip32Entropy kp,
        FromJSON entropy,
        BechEncodePublicKey pk,
        Dialog content,
        SerializeCall (getProp tes ''call''),
        SerializeUnsignedTransaction (Obj utx),
        Sign sut sk,
        SerializeTransaction
          (Obj ((''signature'', Obj [(''msg_sig'', Arr (map (\<lambda>b. Num (of_nat (unat b))) sg))])
                # (''pub_key'', Str pk) # utx)),
        Dealloc]"
  using assms
proof (rule signTransaction_success)
  fix es tes entropy and node :: slip10_node and sk address content sc sut sg txb
  let ?utx = "unsignedTransaction (filter (\<lambda>e. fst e \<noteq> ''call'') tes) (Array_from sc)"
  let ?pk = "cleanPublicKeyResponse (node_publicKey node)"
  let ?kp = "getKeypairParams env (getProp es ''keyId'')"
  let ?stx = "(''signature'', Obj [(''msg_sig'', Array_from sg)]) # (''pub_key'', Str ?pk) # ?utx"
  assume es: "params req = Obj es" "getProp es ''transaction'' = Obj tes"
    and keys: "set (map fst tes) \<subseteq> set transaction_keys"
    and node: "snap_getBip32Entropy env ?kp = Inr entropy"
      "SLIP10Node_fromJSON env entropy = Inr node"
      "node_privateKey node = Some sk"
    and sc: "wasm_serializeCall env (getProp tes ''call'') = Inr sc"
    and sut: "wasm_serializeUnsignedTransaction env (Obj ?utx) = Inr sut"
    and sg: "ed25519_sign env sut (remove0x sk) = Inr sg"
    and txb: "wasm_serializeTransaction env (Obj (signedTransaction (Array_from sg) ?pk ?utx))
        = Inr txb"
    and hex: "txHex = bytesToHex txb"
    and tr: "snd (onRpcRequest env origin req) =
       [Validate SignTransactionStruct (Obj es),
        GetBip32Entropy ?kp,
        FromJSON entropy,
        BechEncodePublicKey ?pk,
        Dialog content,
        SerializeCall (getProp tes ''call''),
        SerializeUnsignedTransaction (Obj ?utx),
        Sign sut (remove0x sk),
        SerializeTransaction (Obj (signedTransaction (Array_from sg) ?pk ?utx)),
        Dealloc]"
  note shape = signedTransaction_shape [OF keys, of "Array_from sg" ?pk "Array_from sc"]
  have arr: "Array_from bs = Arr (map (\<lambda>b. Num (of_nat (unat b))) bs)" for bs
    by (simp add: Array_from_def)
  have txb': "wasm_serializeTransaction env (Obj ?stx) = Inr txb"
    using txb by (simp only: shape)
  have signs: "filter is_sign_call (snd (onRpcRequest env origin req)) = [Sign sut (remove0x sk)]"
    by (simp add: tr)
  have encs: "filter is_encoder_call (snd (onRpcRequest env origin req)) =
       [SerializeCall (getProp tes ''call''),
        SerializeUnsignedTransaction (Obj ?utx),
        SerializeTransaction (Obj ?stx)]"
    by (simp add: tr shape)
  have sk: "remove0x sk = (if take 2 sk = ''0x'' \<or> take 2 sk = ''0X'' then drop 2 sk else sk)"
    by (rule remove0x_explicit)
  have pk: "?pk = drop 2 (if take 2 (node_publicKey node) = ''0x'' \<or>
        take 2 (node_publicKey node) = ''0X''
      then drop 2 (node_publicKey node) else node_publicKey node)"
    by (simp add: cleanPublicKeyResponse_def remove0x_def)
  have frame: "distinct (map fst tes) \<longrightarrow>
      ?utx = filter (\<lambda>e. fst e \<noteq> ''call'') tes
             @ [(''runtime_msg'', Arr (map (\<lambda>b. Num (of_nat (unat b))) sc))]"
  proof
    assume "distinct (map fst tes)"
    then have "distinct (map fst (filter (\<lambda>e. fst e \<noteq> ''call'') tes))"
      by (rule distinct_map_filter)
    moreover have "''runtime_msg'' \<notin> set (map fst (filter (\<lambda>e. fst e \<noteq> ''call'') tes))"
      using keys by (auto simp: transaction_keys_def)
    ultimately show "?utx = filter (\<lambda>e. fst e \<noteq> ''call'') tes
             @ [(''runtime_msg'', Arr (map (\<lambda>b. Num (of_nat (unat b))) sc))]"
      by (simp add: unsignedTransaction_append arr)
  qed
  have hex': "txHex = ''0x'' @ concat (map (\<lambda>b. [''0123456789abcdef'' ! (unat b div 16),
                                         ''0123456789abcdef'' ! (unat b mod 16)]) txb)"
    using hex by (simp only: bytesToHex_explicit)
  have trace: "snd (onRpcRequest env origin req) =
       [Validate SignTransactionStruct (params req),
        GetBip32Entropy ?kp,
        FromJSON entropy,
        BechEncodePublicKey ?pk,
        Dialog content,
        SerializeCall (getProp tes ''call''),
        SerializeUnsignedTransaction (Obj ?utx),
        Sign sut (remove0x sk),
        SerializeTransaction
          (Obj ((''signature'', Obj [(''msg_sig'', Arr (map (\<lambda>b. Num (of_nat (unat b))) sg))])
                # (''pub_key'', Str ?pk) # ?utx)),
        Dealloc]"
    by (simp add: tr es signedTransaction_shape [OF keys] arr)
  show ?thesis
    apply (rule exI [of _ es], rule exI [of _ tes], rule exI [of _ sc], rule exI [of _ ?utx])
    apply (rule exI [of _ sut], rule exI [of _ "remove0x sk"], rule exI [of _ sg])
    apply (rule exI [of _ ?pk], rule exI [of _ txb], rule exI [of _ ?kp])
    apply (rule exI [of _ entropy], rule exI [of _ node], rule exI [of _ sk])
    apply (rule exI [of _ content])
    apply (intro conjI)
    apply (fact es sc sut signs sg txb' hex encs node sk pk arr frame hex' trace refl)+
    done
qed

lemma sign_request_run:
  "rpc_method sign_request = ''signTransaction'' \<and>
   fst (onRpcRequest test_env ''site'' sign_request) = Inr ''0xab01''"
  by code_simp

theorem signature_over_canonical_unsigned_bytes_witness:
  "\<exists>es tes sc utx sut sk sg pk txb kp entropy node nsk content.
     params sign_request = Obj es \<and>
     getProp es ''transaction'' = Obj tes \<and>
     wasm_serializeCall test_env (getProp tes ''call'') = Inr sc \<and>
     utx = unsignedTransaction (filter (\<lambda>e. fst e \<noteq> ''call'') tes) (Array_from sc) \<and>
     wasm_serializeUnsignedTransaction test_env (Obj utx) = Inr sut \<and>
     filter is_sign_call (snd (onRpcRequest test_env ''site'' sign_request)) = [Sign sut sk] \<and>
     ed25519_sign test_env sut sk = Inr sg \<and>
     wasm_serializeTransaction test_env
       (Obj ((''signature'', Obj [(''msg_sig'', Array_from sg)]) # (''pub_key'', Str pk) # utx))
       = Inr txb \<and>
     ''0xab01'' = bytesToHex txb \<and>
     filter is_encoder_call (snd (onRpcRequest test_env ''site'' sign_request)) =
       [SerializeCall (getProp tes ''call''),
        SerializeUnsignedTransaction (Obj utx),
        SerializeTransaction
          (Obj ((''signature'', Obj [(''msg_sig'', Array_from sg)]) # (''pub_key'', Str pk) # utx))] \<and>
     snap_getBip32Entropy test_env kp = Inr entropy \<and>
     SLIP10Node_fromJSON test_env entropy = Inr node \<and>
     node_privateKey node = Some nsk \<and>
     sk = (if take 2 nsk = ''0x'' \<or> take 2 nsk = ''0X'' then drop 2 nsk else nsk) \<and>
     pk = drop 2 (if take 2 (node_publicKey node) = ''0x'' \<or> take 2 (node_publicKey node) = ''0X''
                  then drop 2 (node_publicKey node) else node_publicKey node) \<and>
     Array_from sg = Arr (map (\<lambda>b. Num (of_nat (unat b))) sg) \<and>
     Array_from sc = Arr (map (\<lambda>b. Num (of_nat (unat b))) sc) \<and>
     (distinct (map fst tes) \<longrightarrow>
        utx = filter (\<lambda>e. fst e \<noteq> ''call'') tes
              @ [(''runtime_msg'', Arr (map (\<lambda>b. Num (of_nat (unat b))) sc))]) \<and>
     ''0xab01'' = ''0x'' @ concat (map (\<lambda>b. [''0123456789abcdef'' ! (unat b div 16),
                                         ''0123456789abcdef'' ! (unat b mod 16)]) txb) \<and>
     snd (onRpcRequest test_env ''site'' sign_request) =
       [Validate SignTransactionStruct (params sign_request),
        GetBip32Entropy kp,
        FromJSON entropy,
        BechEncodePublicKey pk,
        Dialog content,
        SerializeCall (getProp tes ''call''),
        SerializeUnsignedTransaction (Obj utx),
        Sign sut sk,
        SerializeTransaction
          (Obj ((''signature'', Obj [(''msg_sig'', Arr (map (\<lambda>b. Num (of_nat (unat b))) sg))])
                # (''pub_key'', Str pk) # utx)),
        Dealloc]"
  using sign_request_run
  by (intro signature_over_canonical_unsigned_bytes) simp_all

text \<open>
  C9. In every \<^verbatim>\<open>signTransaction\<close> request that returns, the custody gateway is asked once
  for the entropy of the derived path and one SLIP-10 node is built from its answer; the
  signer is called with that node's private key (without \<^verbatim>\<open>0x\<close>), the \<^verbatim>\<open>pub_key\<close> of the
  signed transaction handed to the codec is that node's public key without \<^verbatim>\<open>0x\<close> and
  without its two-character flag prefix, and the address shown in the one confirmation
  dialog (after \<^verbatim>\<open>from address:\<close>) is the codec's encoding of the same normalised key. For
  a node whose public key is \<^verbatim>\<open>0x\<close> \<open>a b key\<close>, \<^verbatim>\<open>pub_key\<close> is \<open>key\<close> and the address shown is
  the encoding of \<open>key\<close>.
\<close>

theorem displayed_address_is_of_signing_key:
  assumes "rpc_method req = ''signTransaction''"
    and "fst (onRpcRequest env origin req) = Inr txHex"
  shows "\<exists>entropy node sk m stx txb address content kp c u.
     SLIP10Node_fromJSON env entropy = Inr node \<and>
     node_privateKey node = Some sk \<and>
     filter is_sign_call (snd (onRpcRequest env origin req)) = [Sign m (remove0x sk)] \<and>
     SerializeTransaction (Obj stx) \<in> set (snd (onRpcRequest env origin req)) \<and>
     getProp stx ''pub_key'' = Str (cleanPublicKeyResponse (node_publicKey node)) \<and>
     wasm_serializeTransaction env (Obj stx) = Inr txb \<and>
     txHex = bytesToHex txb \<and>
     filter is_dialog_call (snd (onRpcRequest env origin req)) = [Dialog content] \<and>
     content ! 5 = Text ''from address:'' \<and>
     content ! 6 = Copyable address \<and>
     wasm_bechEncodePublicKey env (cleanPublicKeyResponse (node_publicKey node)) = Inr address \<and>
     snap_getBip32Entropy env kp = Inr entropy \<and>
     snd (onRpcRequest env origin req) =
       [Validate SignTransactionStruct (params req),
        GetBip32Entropy kp,
        FromJSON entropy,
        BechEncodePublicKey (drop 2 (remove0x (node_publicKey node))),
        Dialog content,
        SerializeCall c,
        SerializeUnsignedTransaction u,
        Sign m (if take 2 sk = ''0x'' \<or> take 2 sk = ''0X'' then drop 2 sk else sk),
        SerializeTransaction (Obj stx),
        Dealloc] \<and>
     cleanPublicKeyResponse (node_publicKey node) =
       drop 2 (if take 2 (node_publicKey node) = ''0x'' \<or> take 2 (node_publicKey node) = ''0X''
               then drop 2 (node_publicKey node) else node_publicKey node) \<and>
     (\<forall>a b key. node_publicKey node = ''0x'' @ a # b # key \<longrightarrow>
        getProp stx ''pub_key'' = Str key \<and>
        wasm_bechEncodePublicKey env key = Inr address \<and>
        BechEncodePublicKey key \<in> set (snd (onRpcRequest env origin req)))"
  using assms
proof (rule signTransaction_success)
  fix es tes entropy and node :: slip10_node and sk address content sc sut sg txb
  let ?utx = "unsignedTransaction (filter (\<lambda>e. fst e \<noteq> ''call'') tes) (Array_from sc)"
  let ?pk = "cleanPublicKeyResponse (node_publicKey node)"
  let ?kp = "getKeypairParams env (getProp es ''keyId'')"
  let ?stx = "signedTransaction (Array_from sg) ?pk ?utx"
  assume es: "params req = Obj es"
    and keys: "set (map fst tes) \<subseteq> set transaction_keys"
    and gw: "snap_getBip32Entropy env ?kp = Inr entropy"
    and node: "SLIP10Node_fromJSON env entropy = Inr node" "node_privateKey node = Some sk"
    and addr: "wasm_bechEncodePublicKey env ?pk = Inr address"
    and content: "confirmationContent env origin (Obj tes) address = Inr content"
    and txb: "wasm_serializeTransaction env (Obj ?stx) = Inr txb"
    and hex: "txHex = bytesToHex txb"
    and tr: "snd (onRpcRequest env origin req) =
       [Validate SignTransactionStruct (Obj es),
        GetBip32Entropy ?kp,
        FromJSON entropy,
        BechEncodePublicKey ?pk,
        Dialog content,
        SerializeCall (getProp tes ''call''),
        SerializeUnsignedTransaction (Obj ?utx),
        Sign sut (remove0x sk),
        SerializeTransaction (Obj ?stx),
        Dealloc]"
  have pub: "getProp ?stx ''pub_key'' = Str ?pk"
    by (simp add: signedTransaction_shape [OF keys] getProp_def)
  from confirmationContent_address_imp [THEN mp, OF content]
  have shown: "content ! 5 = Text ''from address:''" "content ! 6 = Copyable address"
    by simp_all
  have stx_in: "SerializeTransaction (Obj ?stx) \<in> set (snd (onRpcRequest env origin req))"
    by (simp add: tr)
  have signs: "filter is_sign_call (snd (onRpcRequest env origin req)) = [Sign sut (remove0x sk)]"
    and dialogs: "filter is_dialog_call (snd (onRpcRequest env origin req)) = [Dialog content]"
    by (simp_all add: tr)
  have clean: "?pk = drop 2 (if take 2 (node_publicKey node) = ''0x'' \<or>
        take 2 (node_publicKey node) = ''0X''
      then drop 2 (node_publicKey node) else node_publicKey node)"
    by (simp add: cleanPublicKeyResponse_def remove0x_def)
  have trace: "snd (onRpcRequest env origin req) =
       [Validate SignTransactionStruct (params req),
        GetBip32Entropy ?kp,
        FromJSON entropy,
        BechEncodePublicKey (drop 2 (remove0x (node_publicKey node))),
        Dialog content,
        SerializeCall (getProp tes ''call''),
        SerializeUnsignedTransaction (Obj ?utx),
        Sign sut (if take 2 sk = ''0x'' \<or> take 2 sk = ''0X'' then drop 2 sk else sk),
        SerializeTransaction (Obj ?stx),
        Dealloc]"
    by (simp add: tr es cleanPublicKeyResponse_def remove0x_explicit [of sk])
  have strip: "\<forall>a b key. node_publicKey node = ''0x'' @ a # b # key \<longrightarrow>
        getProp ?stx ''pub_key'' = Str key \<and>
        wasm_bechEncodePublicKey env key = Inr address \<and>
        BechEncodePublicKey key \<in> set (snd (onRpcRequest env origin req))"
  proof (intro allI impI)
    fix a b key
    assume "node_publicKey node = ''0x'' @ a # b # key"
    then have "?pk = key"
      by (simp add: cleanPublicKeyResponse_def remove0x_def)
    with pub addr tr
    show "getProp ?stx ''pub_key'' = Str key \<and>
        wasm_bechEncodePublicKey env key = Inr address \<and>
        BechEncodePublicKey key \<in> set (snd (onRpcRequest env origin req))"
      by simp
  qed
  show ?thesis
    apply (rule exI [of _ entropy], rule exI [of _ node], rule exI [of _ sk])
    apply (rule exI [of _ sut], rule exI [of _ ?stx], rule exI [of _ txb])
    apply (rule exI [of _ address], rule exI [of _ content], rule exI [of _ ?kp])
    apply (rule exI [of _ "getProp tes ''call''"], rule exI [of _ "Obj ?utx"])
    apply (intro conjI)
    apply (fact node signs stx_in pub txb hex dialogs shown addr gw trace clean strip)+
    done
qed

theorem displayed_address_is_of_signing_key_witness:
  "\<exists>entropy node sk m stx txb address content kp c u.
     SLIP10Node_fromJSON test_env entropy = Inr node \<and>
     node_privateKey node = Some sk \<and>
     filter is_sign_call (snd (onRpcRequest test_env ''site'' sign_request)) = [Sign m (remove0x sk)] \<and>
     SerializeTransaction (Obj stx) \<in> set (snd (onRpcRequest test_env ''site'' sign_request)) \<and>
     getProp stx ''pub_key'' = Str (cleanPublicKeyResponse (node_publicKey node)) \<and>
     wasm_serializeTransaction test_env (Obj stx) = Inr txb \<and>
     ''0xab01'' = bytesToHex txb \<and>
     filter is_dialog_call (snd (onRpcRequest test_env ''site'' sign_request)) = [Dialog content] \<and>
     content ! 5 = Text ''from address:'' \<and>
     content ! 6 = Copyable address \<and>
     wasm_bechEncodePublicKey test_env (cleanPublicKeyResponse (node_publicKey node)) = Inr address \<and>
     snap_getBip32Entropy test_env kp = Inr entropy \<and>
     snd (onRpcRequest test_env ''site'' sign_request) =
       [Validate SignTransactionStruct (params sign_request),
        GetBip32Entropy kp,
        FromJSON entropy,
        BechEncodePublicKey (drop 2 (remove0x (node_publicKey node))),
        Dialog content,
        SerializeCall c,
        SerializeUnsignedTransaction u,
        Sign m (if take 2 sk = ''0x'' \<or> take 2 sk = ''0X'' then drop 2 sk else sk),
        SerializeTransaction (Obj stx),
        Dealloc] \<and>
     cleanPublicKeyResponse (node_publicKey node) =
       drop 2 (if take 2 (node_publicKey node) = ''0x'' \<or> take 2 (node_publicKey node) = ''0X''
               then drop 2 (node_publicKey node) else node_publicKey node) \<and>
     (\<forall>a b key. node_publicKey node = ''0x'' @ a # b # key \<longrightarrow>
        getProp stx ''pub_key'' = Str key \<and>
        wasm_bechEncodePublicKey test_env key = Inr address \<and>
        BechEncodePublicKey key \<in> set (snd (onRpcRequest test_env ''site'' sign_request)))"
  using sign_request_run
  by (intro displayed_address_is_of_signing_key) simp_all

section \<open>The unsigned transaction\<close>

lemma map_of_omit: "k \<noteq> c \<Longrightarrow> map_of (filter (\<lambda>e. fst e \<noteq> c) es) k = map_of es k"
  by (induction es) auto

lemma getProp_omit_append:
  assumes "k \<noteq> c" and "k \<noteq> r"
  shows "getProp (filter (\<lambda>e. fst e \<noteq> c) es @ [(r, v)]) k = getProp es k"
  using assms by (simp add: getProp_def map_of_omit map_add_def split: option.split)

lemma getProp_omitted:
  assumes "c \<noteq> r"
  shows "getProp (filter (\<lambda>e. fst e \<noteq> c) es @ [(r, v)]) c = Undefined"
proof -
  have "map_of (filter (\<lambda>e. fst e \<noteq> c) es) c = None"
    by (induction es) auto
  with assms show ?thesis
    by (simp add: getProp_def map_add_def)
qed

lemma getProp_appended:
  assumes "r \<notin> set (map fst es)"
  shows "getProp (es @ [(r, v)]) r = v"
proof -
  from assms have "map_of es r = None"
    by (simp add: map_of_eq_None_iff)
  then show ?thesis
    by (simp add: getProp_def map_add_def)
qed

text \<open>
  C3 (as the code has it). The unsigned transaction handed to the codec in a
  \<^verbatim>\<open>signTransaction\<close> request is the transaction of the request (an object, with its keys
  distinct) with the \<^verbatim>\<open>call\<close> property removed and \<^verbatim>\<open>runtime_msg\<close>, the array of the codec's
  bytes for \<^verbatim>\<open>call\<close>, added as the last property, whatever place \<^verbatim>\<open>call\<close> had. Nothing else
  changes: the remaining properties keep their relative order and their values, so
  \<^verbatim>\<open>chain_id\<close>, \<^verbatim>\<open>max_priority_fee_bips\<close>, \<^verbatim>\<open>max_fee\<close>, \<^verbatim>\<open>gas_limit\<close> and \<^verbatim>\<open>nonce\<close> read the same
  in both.
\<close>

theorem unsigned_transaction_replaces_call_only:
  assumes "rpc_method req = ''signTransaction''"
    and "params req = Obj es" and "getProp es ''transaction'' = Obj tes"
    and "distinct (map fst tes)"
    and "SerializeUnsignedTransaction u \<in> set (snd (onRpcRequest env origin req))"
  shows "\<exists>sc. wasm_serializeCall env (getProp tes ''call'') = Inr sc \<and>
     u = Obj (filter (\<lambda>e. fst e \<noteq> ''call'') tes @ [(''runtime_msg'', Array_from sc)]) \<and>
     (\<forall>k \<in> set [''chain_id'', ''max_priority_fee_bips'', ''max_fee'', ''gas_limit'', ''nonce''].
        member u k = member (Obj tes) k) \<and>
     member u ''call'' = Inr Undefined \<and>
     member u ''runtime_msg'' = Inr (Array_from sc) \<and>
     Array_from sc = Arr (map (\<lambda>b. Num (of_nat (unat b))) sc) \<and>
     u = Obj (filter (\<lambda>e. fst e \<noteq> ''call'') tes
              @ [(''runtime_msg'', Arr (map (\<lambda>b. Num (of_nat (unat b))) sc))])"
proof (cases rule: validate_cases [of "params req" SignTransactionStruct])
  case (invalid f)
  with assms(1) have "snd (onRpcRequest env origin req) =
      [Validate SignTransactionStruct (params req)]"
    by (simp add: onRpcRequest_def signTransaction_invalid)
  with assms(5) show ?thesis by simp
next
  case valid
  with assms(2,3) have keys: "set (map fst tes) \<subseteq> set transaction_keys"
    using run_SignTransaction_Nil [of "params req"] by auto
  let ?kp = "getKeypairParams env (getProp es ''keyId'')"
  let ?rest = "filter (\<lambda>e. fst e \<noteq> ''call'') tes"
  have run: "onRpcRequest env origin req =
      after [Validate SignTransactionStruct (Obj es)]
        (catchM (signTransaction_try env origin (Obj tes) ?kp)
           (\<lambda>er. bindM wasm_dealloc (\<lambda>u. throwM er)))"
    using assms(1-3) valid by (simp add: onRpcRequest_def signTransaction_valid)
  have "SerializeUnsignedTransaction u \<in> set (snd (signTransaction_try env origin (Obj tes) ?kp))"
    using assms(5) by (auto simp: run guarded_snd split: sum.splits)
  from try_unsigned_imp [THEN mp, OF this]
  obtain sc where sc: "wasm_serializeCall env (getProp tes ''call'') = Inr sc"
    and u: "u = Obj (unsignedTransaction ?rest (Array_from sc))"
    by blast
  have fresh: "''runtime_msg'' \<notin> set (map fst tes)"
    using keys by (auto simp: transaction_keys_def)
  then have fresh': "''runtime_msg'' \<notin> set (map fst ?rest)"
    by auto
  moreover have "distinct (map fst ?rest)"
    using assms(4) by (rule distinct_map_filter)
  ultimately have "unsignedTransaction ?rest (Array_from sc) =
      ?rest @ [(''runtime_msg'', Array_from sc)]"
    by (simp add: unsignedTransaction_append)
  with u have shape: "u = Obj (?rest @ [(''runtime_msg'', Array_from sc)])"
    by simp
  have arr: "Array_from sc = Arr (map (\<lambda>b. Num (of_nat (unat b))) sc)"
    by (simp add: Array_from_def)
  have "\<forall>k \<in> set [''chain_id'', ''max_priority_fee_bips'', ''max_fee'', ''gas_limit'', ''nonce''].
      member u k = member (Obj tes) k"
    by (simp add: shape getProp_omit_append)
  moreover have "member u ''call'' = Inr Undefined"
    by (simp add: shape getProp_omitted)
  moreover have "member u ''runtime_msg'' = Inr (Array_from sc)"
    using getProp_appended [OF fresh']
    by (simp add: shape member_def)
  moreover have "u = Obj (?rest @ [(''runtime_msg'', Arr (map (\<lambda>b. Num (of_nat (unat b))) sc))])"
    using shape by (simp only: arr)
  ultimately show ?thesis
    using sc shape arr by blast
qed

text \<open>
  In the request of the test suite \<^verbatim>\<open>call\<close> is the first property of the transaction. The
  unsigned transaction the codec receives starts with \<^verbatim>\<open>nonce\<close> and ends with
  \<^verbatim>\<open>runtime_msg\<close>; the transaction with \<^verbatim>\<open>call\<close> replaced in its place by \<^verbatim>\<open>runtime_msg\<close> is
  not what the codec receives.
\<close>

theorem runtime_msg_not_in_place_of_call:
  "wasm_serializeCall test_env (Obj [(''bank'', Obj [])]) = Inr [1, 2] \<and>
   SerializeUnsignedTransaction
     (Obj [(''nonce'', Num 0), (''chain_id'', Num 4321), (''max_priority_fee_bips'', Num 0),
           (''max_fee'', Num 10000), (''gas_limit'', Arr []),
           (''runtime_msg'', Arr [Num 1, Num 2])])
     \<in> set (snd (onRpcRequest test_env ''site''
          \<lparr>rpc_method = ''signTransaction'',
           params = Obj [(''keyId'', Num 0),
             (''transaction'',
              Obj [(''call'', Obj [(''bank'', Obj [])]), (''nonce'', Num 0),
                   (''chain_id'', Num 4321), (''max_priority_fee_bips'', Num 0),
                   (''max_fee'', Num 10000), (''gas_limit'', Arr [])])]\<rparr>)) \<and>
   SerializeUnsignedTransaction
     (Obj [(''runtime_msg'', Arr [Num 1, Num 2]), (''nonce'', Num 0), (''chain_id'', Num 4321),
           (''max_priority_fee_bips'', Num 0), (''max_fee'', Num 10000), (''gas_limit'', Arr [])])
     \<notin> set (snd (onRpcRequest test_env ''site''
          \<lparr>rpc_method = ''signTransaction'',
           params = Obj [(''keyId'', Num 0),
             (''transaction'',
              Obj [(''call'', Obj [(''bank'', Obj [])]), (''nonce'', Num 0),
                   (''chain_id'', Num 4321), (''max_priority_fee_bips'', Num 0),
                   (''max_fee'', Num 10000), (''gas_limit'', Arr [])])]\<rparr>))"
  by code_simp

lemma sign_request_unsigned:
  "rpc_method sign_request = ''signTransaction'' \<and>
   params sign_request = Obj test_sign_params \<and>
   getProp test_sign_params ''transaction'' = Obj test_transaction_entries \<and>
   distinct (map fst test_transaction_entries) \<and>
   SerializeUnsignedTransaction test_unsigned
     \<in> set (snd (onRpcRequest test_env ''site'' sign_request))"
  by code_simp

theorem unsigned_transaction_replaces_call_only_witness:
  "\<exists>sc. wasm_serializeCall test_env (getProp test_transaction_entries ''call'') = Inr sc \<and>
     test_unsigned = Obj (filter (\<lambda>e. fst e \<noteq> ''call'') test_transaction_entries @ [(''runtime_msg'', Array_from sc)]) \<and>
     (\<forall>k \<in> set [''chain_id'', ''max_priority_fee_bips'', ''max_fee'', ''gas_limit'', ''nonce''].
        member test_unsigned k = member (Obj test_transaction_entries) k) \<and>
     member test_unsigned ''call'' = Inr Undefined \<and>
     member test_unsigned ''runtime_msg'' = Inr (Array_from sc) \<and>
     Array_from sc = Arr (map (\<lambda>b. Num (of_nat (unat b))) sc) \<and>
     test_unsigned = Obj (filter (\<lambda>e. fst e \<noteq> ''call'') test_transaction_entries
              @ [(''runtime_msg'', Arr (map (\<lambda>b. Num (of_nat (unat b))) sc))])"
  using unsigned_transaction_replaces_call_only
    [of sign_request test_sign_params test_transaction_entries test_unsigned test_env "''site''"]
    sign_request_unsigned
  by blast

end
